theory Spec2Isabelle
  imports Main
begin

section \<open>Python strings\<close>

text \<open>
  A Python \<open>str\<close> is modelled as a \<open>string\<close>, one list element per character.
  The operations below are the ones the handler and the services module call on strings;
  each follows the behaviour of the CPython built-in of the same name.
\<close>

definition startswith :: "string \<Rightarrow> string \<Rightarrow> bool" where
  "startswith s p = (take (length p) s = p)"

text \<open>\<open>s.find(c)\<close> for a one-character needle: the lowest index, or \<open>-1\<close>.\<close>

fun find :: "string \<Rightarrow> char \<Rightarrow> int" where
  "find [] c = -1"
| "find (x # xs) c =
     (if x = c then 0 else (let r = find xs c in if r < 0 then -1 else r + 1))"

text \<open>\<open>s.rfind(c)\<close>: the highest index, or \<open>-1\<close>.\<close>

fun rfind :: "string \<Rightarrow> char \<Rightarrow> int" where
  "rfind [] c = -1"
| "rfind (x # xs) c =
     (let r = rfind xs c in if 0 \<le> r then r + 1 else if x = c then 0 else -1)"

text \<open>
  \<open>s[a:b]\<close>: a negative bound counts from the end, and both bounds are clamped to
  \<open>0 .. len(s)\<close>; an empty range gives the empty string.
\<close>

definition slice_bound :: "string \<Rightarrow> int \<Rightarrow> nat" where
  "slice_bound s i =
     (let n = int (length s); j = (if i < 0 then i + n else i)
      in if j < 0 then 0 else if n < j then length s else nat j)"

definition slice :: "string \<Rightarrow> int \<Rightarrow> int \<Rightarrow> string" where
  "slice s a b = drop (slice_bound s a) (take (slice_bound s b) s)"

text \<open>\<open>s[a:]\<close> and \<open>s[:b]\<close>.\<close>

definition slice_from :: "string \<Rightarrow> int \<Rightarrow> string" where
  "slice_from s a = drop (slice_bound s a) s"

definition slice_to :: "string \<Rightarrow> int \<Rightarrow> string" where
  "slice_to s b = take (slice_bound s b) s"

text \<open>
  \<open>s.lower()\<close>: the letters \<open>A\<close> to \<open>Z\<close> go to \<open>a\<close> to \<open>z\<close>. Every other
  character is kept; in particular the dot and the slash are kept, and no character
  outside \<open>A\<close> to \<open>Z\<close> becomes a dot, a slash, or a letter or digit of an allowed
  extension.
\<close>

definition lower_char :: "char \<Rightarrow> char" where
  "lower_char c =
     (let n = (of_char c :: nat)
      in if 65 \<le> n \<and> n \<le> 90 then char_of (n + 32) else c)"

definition lower :: "string \<Rightarrow> string" where
  "lower s = map lower_char s"

section \<open>\<open>os.path.splitext\<close>\<close>

text \<open>
  \<open>posixpath.splitext(p)\<close> is \<open>genericpath._splitext(p, '/', None, '.')\<close>:
  \<^verbatim>\<open>
    sepIndex = p.rfind(sep)
    dotIndex = p.rfind(extsep)
    if dotIndex > sepIndex:
        filenameIndex = sepIndex + 1
        while filenameIndex < dotIndex:
            if p[filenameIndex:filenameIndex+1] != extsep:
                return p[:dotIndex], p[dotIndex:]
            filenameIndex += 1
    return p, p[:0]
  \<close>
  The loop skips the leading dots of the last path component; it is the recursion
  \<open>splitext_loop\<close>, which returns \<open>None\<close> where the loop falls through.
\<close>

function splitext_loop :: "string \<Rightarrow> int \<Rightarrow> int \<Rightarrow> (string \<times> string) option" where
  "splitext_loop p filenameIndex dotIndex =
     (if filenameIndex < dotIndex then
        (if slice p filenameIndex (filenameIndex + 1) \<noteq> ''.''
         then Some (slice_to p dotIndex, slice_from p dotIndex)
         else splitext_loop p (filenameIndex + 1) dotIndex)
      else None)"
  by pat_completeness auto
termination
  by (relation "measure (\<lambda>(p, filenameIndex, dotIndex). nat (dotIndex - filenameIndex))") auto

declare splitext_loop.simps [simp del]

definition splitext :: "string \<Rightarrow> string \<times> string" where
  "splitext p =
     (let sepIndex = rfind p CHR ''/'';
          dotIndex = rfind p CHR ''.''
      in if sepIndex < dotIndex then
           (case splitext_loop p (sepIndex + 1) dotIndex of
              Some r \<Rightarrow> r
            | None \<Rightarrow> (p, slice_to p 0))
         else (p, slice_to p 0))"

section \<open>Input validator (\<open>services.validate_audio_file\<close>)\<close>

definition allowed_extensions :: "string list" where
  "allowed_extensions = [''.mp3'', ''.wav'', ''.m4a'', ''.flac'', ''.ogg'', ''.aac'']"

definition validate_audio_file :: "string \<Rightarrow> bool" where
  "validate_audio_file file_key =
     (if \<not> startswith file_key ''audio/'' then False
      else
        (let file_extension = snd (splitext (lower file_key))
         in if file_extension \<notin> set allowed_extensions then False else True))"

text \<open>
  The extension of a key, as \<open>os.path.splitext\<close> defines it on the key as given, without
  its leading dot: the part of the last path component after its last dot, provided a
  character other than a dot comes before that dot in the component; empty otherwise
  (lemmas \<open>key_extension_explicit\<close> and \<open>key_extension_explicit_conv\<close> below). So
  \<open>audio/a.MP3\<close> has the extension \<open>MP3\<close>, and \<open>audio/.mp3\<close> and \<open>audio/a.mp3/\<close>
  have none.
\<close>

definition key_extension :: "string \<Rightarrow> string" where
  "key_extension file_key = drop 1 (snd (splitext file_key))"

definition allow_set :: "string list" where
  "allow_set = [''mp3'', ''wav'', ''m4a'', ''flac'', ''ogg'', ''aac'']"

section \<open>Values, exceptions and dictionaries\<close>

text \<open>
  The values that \<open>json.loads\<close> produces and \<open>json.dumps\<close> accepts: \<open>None\<close>, booleans,
  integers, floats (mantissa and binary exponent), strings, lists and dictionaries with
  string keys. A dictionary is an association list; a lookup takes the first entry of a key.
\<close>

datatype json =
    JNull
  | JBool bool
  | JInt int
  | JFloat int int
  | JStr string
  | JArr "json list"
  | JObj "(string \<times> json) list"

type_synonym dict = "(string \<times> json) list"

text \<open>An exception is its class and its message (\<open>str(e)\<close>).\<close>

datatype exn_kind =
    FileNotFoundError
  | ValueError
  | KeyError
  | IndexError
  | TypeError
  | AttributeError
  | JSONDecodeError
  | ClientError
  | RuntimeError
  | RecursionError

datatype exn = Exn exn_kind string

fun str_exn :: "exn \<Rightarrow> string" where
  "str_exn (Exn k m) = m"

fun exn_kind_of :: "exn \<Rightarrow> exn_kind" where
  "exn_kind_of (Exn k m) = k"

text \<open>Truth value of a value, as \<open>if not x\<close> and \<open>all([...])\<close> test it.\<close>

fun truthy :: "json \<Rightarrow> bool" where
  "truthy JNull = False"
| "truthy (JBool b) = b"
| "truthy (JInt n) = (n \<noteq> 0)"
| "truthy (JFloat m e) = (m \<noteq> 0)"
| "truthy (JStr s) = (s \<noteq> [])"
| "truthy (JArr xs) = (xs \<noteq> [])"
| "truthy (JObj d) = (d \<noteq> [])"

fun type_name :: "json \<Rightarrow> string" where
  "type_name JNull = ''NoneType''"
| "type_name (JBool b) = ''bool''"
| "type_name (JInt n) = ''int''"
| "type_name (JFloat m e) = ''float''"
| "type_name (JStr s) = ''str''"
| "type_name (JArr xs) = ''list''"
| "type_name (JObj d) = ''dict''"

definition quote :: "string \<Rightarrow> string" where
  "quote s = [CHR 0x27] @ s @ [CHR 0x27]"

text \<open>\<open>d.get(k, default)\<close>, \<open>d.get(k)\<close> and \<open>d[k]\<close> on a dictionary.\<close>

definition dict_get :: "dict \<Rightarrow> string \<Rightarrow> json \<Rightarrow> json" where
  "dict_get d k dflt = (case map_of d k of None \<Rightarrow> dflt | Some v \<Rightarrow> v)"

definition dict_get_none :: "dict \<Rightarrow> string \<Rightarrow> json" where
  "dict_get_none d k = dict_get d k JNull"

definition dict_getitem :: "dict \<Rightarrow> string \<Rightarrow> exn + json" where
  "dict_getitem d k =
     (case map_of d k of None \<Rightarrow> Inl (Exn KeyError (quote k)) | Some v \<Rightarrow> Inr v)"

text \<open>
  \<open>v[k]\<close> with a string \<open>k\<close>, and \<open>v[0]\<close>, on any value. The messages of the
  \<open>TypeError\<close>s are those of CPython 3.12; no statement below depends on their wording.
\<close>

fun getitem_key :: "json \<Rightarrow> string \<Rightarrow> exn + json" where
  "getitem_key (JObj d) k = dict_getitem d k"
| "getitem_key (JArr xs) k =
     Inl (Exn TypeError ''list indices must be integers or slices, not str'')"
| "getitem_key (JStr s) k =
     Inl (Exn TypeError (''string indices must be integers, not '' @ quote ''str''))"
| "getitem_key v k =
     Inl (Exn TypeError (quote (type_name v) @ '' object is not subscriptable''))"

fun getitem_0 :: "json \<Rightarrow> exn + json" where
  "getitem_0 (JArr []) = Inl (Exn IndexError ''list index out of range'')"
| "getitem_0 (JArr (x # xs)) = Inr x"
| "getitem_0 (JStr []) = Inl (Exn IndexError ''string index out of range'')"
| "getitem_0 (JStr (c # cs)) = Inr (JStr [c])"
| "getitem_0 (JObj d) = Inl (Exn KeyError ''0'')"
| "getitem_0 v = Inl (Exn TypeError (quote (type_name v) @ '' object is not subscriptable''))"

text \<open>\<open>s.split(c)\<close> for a one-character separator; the result is never empty.\<close>

fun split :: "string \<Rightarrow> char \<Rightarrow> string list" where
  "split [] c = [[]]"
| "split (x # xs) c =
     (if x = c then [] # split xs c
      else (case split xs c of [] \<Rightarrow> [[x]] | y # ys \<Rightarrow> (x # y) # ys))"

text \<open>\<open>xs[-1]\<close> on a list of strings.\<close>

definition getitem_last :: "string list \<Rightarrow> exn + string" where
  "getitem_last xs =
     (case xs of [] \<Rightarrow> Inl (Exn IndexError ''list index out of range'') | _ \<Rightarrow> Inr (last xs))"

text \<open>\<open>posixpath.join(a, b)\<close> for two components.\<close>

definition path_join :: "string \<Rightarrow> string \<Rightarrow> string" where
  "path_join a b =
     (if startswith b ''/'' then b
      else if a = [] \<or> last a = CHR ''/'' then a @ b
      else a @ ''/'' @ b)"

section \<open>The process and its collaborators\<close>

text \<open>
  The state a run reads and changes: the local files (path to content; only regular
  files are modelled, and removing an existing file succeeds), the objects of the storage
  service (bucket and key to body), and the record of the calls made to the external
  collaborators so far, in order. The record is a ghost field: it lets a statement say
  which external calls a run made.
\<close>

type_synonym files = "string \<rightharpoonup> string"
type_synonym objects = "(string \<times> string) \<rightharpoonup> string"

datatype call =
    Download json string string
  | LoadModel string
  | Transcribe string
  | Analyze json
  | PutObject json string string
  | GetObject json json
  | Ask json json

record world =
  files :: files
  objects :: objects
  calls :: "call list"

text \<open>
  The collaborators are parameters; nothing is assumed about what they return.
  \<^item> \<open>lambda_function_name\<close>: \<open>os.environ.get("AWS_LAMBDA_FUNCTION_NAME")\<close>.
  \<^item> \<open>timestamp\<close>: \<open>datetime.now().strftime("%Y%m%d_%H%M%S")\<close>.
  \<^item> \<open>s3_download_file objs bucket key path fs\<close>: the exception raised, if any, and the
    local files afterwards. The bucket is whatever value the event holds.
  \<^item> \<open>s3_put_object bucket key body objs\<close>: the exception raised, if any, and the objects
    afterwards.
  \<^item> \<open>s3_get_object objs bucket key\<close>: the decoded body
    (\<open>response['Body'].read().decode('utf-8')\<close>) or the exception raised on the way.
  \<^item> \<open>whisper_load_model name\<close>: \<open>whisper.load_model(name).to("cpu")\<close>, the exception
    raised if any.
  \<^item> \<open>whisper_transcribe path fs\<close>: the result dictionary of \<open>model.transcribe\<close>.
  \<^item> \<open>claude_analysis text\<close>: the text of the hosted model's reply to the analysis prompt
    built from \<open>text\<close> (\<open>response_body['content'][0]['text']\<close>), or the exception
    raised by the call or by reading its response. \<open>claude_answer text question\<close>: the
    same for the question-answering prompt.
  \<^item> \<open>json_loads\<close>, \<open>json_dumps\<close> (\<open>json_dumps_indent2\<close> with \<open>indent=2\<close>) and
    \<open>py_repr\<close> (\<open>str()\<close> of a number, list or dictionary inside an f-string): the
    library functions of these names.
  Log lines and \<open>print\<close> output are not modelled.
\<close>

record env =
  lambda_function_name :: "string option"
  timestamp :: string
  s3_download_file :: "objects \<Rightarrow> json \<Rightarrow> string \<Rightarrow> string \<Rightarrow> files \<Rightarrow> exn option \<times> files"
  s3_put_object :: "json \<Rightarrow> string \<Rightarrow> string \<Rightarrow> objects \<Rightarrow> exn option \<times> objects"
  s3_get_object :: "objects \<Rightarrow> json \<Rightarrow> json \<Rightarrow> exn + string"
  whisper_load_model :: "string \<Rightarrow> exn option"
  whisper_transcribe :: "string \<Rightarrow> files \<Rightarrow> exn + dict"
  claude_analysis :: "json \<Rightarrow> exn + string"
  claude_answer :: "json \<Rightarrow> json \<Rightarrow> exn + string"
  json_loads :: "string \<Rightarrow> exn + json"
  json_dumps :: "json \<Rightarrow> string"
  json_dumps_indent2 :: "json \<Rightarrow> string"
  py_repr :: "json \<Rightarrow> string"

text \<open>\<open>str(v)\<close> as an f-string splices it.\<close>

definition py_str :: "env \<Rightarrow> json \<Rightarrow> string" where
  "py_str E v =
     (case v of
        JStr s \<Rightarrow> s
      | JNull \<Rightarrow> ''None''
      | JBool b \<Rightarrow> (if b then ''True'' else ''False'')
      | _ \<Rightarrow> py_repr E v)"

section \<open>Analysis adapter (\<open>services.analyze_with_claude\<close>)\<close>

text \<open>
  The module sets \<open>os.environ['INFERENCE_PROFILE_ARN']\<close> to a literal before reading it
  back, so the value tested by \<open>if not INFERENCE_PROFILE_ARN\<close> is that literal.
\<close>

definition INFERENCE_PROFILE_ARN :: string where
  "INFERENCE_PROFILE_ARN =
     ''arn:aws:bedrock:us-east-1:010526276239:inference-profile/us.anthropic.claude-3-5-sonnet-20241022-v2:0''"

text \<open>
  The inner \<open>try\<close> catches \<open>json.JSONDecodeError\<close> only; the outer \<open>except Exception\<close>
  logs and raises again, so any other exception leaves the function unchanged.
\<close>

definition analyze_with_claude :: "env \<Rightarrow> world \<Rightarrow> json \<Rightarrow> (exn + json) \<times> world" where
  "analyze_with_claude E w transcript_text =
     (if INFERENCE_PROFILE_ARN = []
      then (Inl (Exn ValueError ''INFERENCE_PROFILE_ARN environment variable is not set''), w)
      else
        (let w1 = w\<lparr>calls := calls w @ [Analyze transcript_text]\<rparr>
         in case claude_analysis E transcript_text of
              Inl e \<Rightarrow> (Inl e, w1)
            | Inr analysis_text \<Rightarrow>
                (let json_start = find analysis_text CHR ''{'';
                     json_end = rfind analysis_text CHR ''}'' + 1;
                     json_str = slice analysis_text json_start json_end
                 in case json_loads E json_str of
                      Inr analysis \<Rightarrow> (Inr analysis, w1)
                    | Inl e \<Rightarrow>
                        (if exn_kind_of e = JSONDecodeError
                         then (Inr (JObj
                                 [(''summary'', JStr (slice_to analysis_text 500)),
                                  (''error'', JStr ''Failed to parse structured response''),
                                  (''raw_response'', JStr analysis_text)]), w1)
                         else (Inl e, w1)))))"

section \<open>Pipeline orchestrator (\<open>services.process_audio_file\<close>)\<close>

definition temp_audio_path :: "env \<Rightarrow> string \<Rightarrow> string" where
  "temp_audio_path E filename =
     (let temp_dir =
            (case lambda_function_name E of
               None \<Rightarrow> ''.''
             | Some n \<Rightarrow> (if n \<noteq> [] then ''/tmp'' else ''.''))
      in path_join temp_dir filename)"

text \<open>The dictionary \<open>complete_result\<close> and the key \<open>result_key\<close> the run builds.\<close>

definition complete_result :: "env \<Rightarrow> string \<Rightarrow> dict \<Rightarrow> json \<Rightarrow> json \<Rightarrow> json" where
  "complete_result E filename result text analysis =
     JObj [(''id'', JStr (timestamp E)),
           (''filename'', JStr filename),
           (''metadata'', JObj
              [(''processed_at'', JStr (timestamp E)),
               (''audio_duration'', dict_get result ''duration'' (JInt 0)),
               (''model_used'', JStr ''Claude 3.5''),
               (''whisper_model'', JStr ''medium'')]),
           (''original_transcript'', text),
           (''analysis'', analysis)]"

definition result_key :: "env \<Rightarrow> string" where
  "result_key E = ''transcripts/'' @ timestamp E @ ''.json''"

text \<open>The body of the \<open>try\<close> block; the \<open>except\<close> clause logs and raises again.\<close>

definition process_audio_file_try ::
  "env \<Rightarrow> world \<Rightarrow> json \<Rightarrow> string \<Rightarrow> string \<Rightarrow> (exn + json) \<times> world" where
  "process_audio_file_try E w bucket key filename =
     (let path = temp_audio_path E filename;
          w1 = w\<lparr>calls := calls w @ [Download bucket key path]\<rparr>;
          d = s3_download_file E (objects w1) bucket key path (files w1);
          w2 = w1\<lparr>files := snd d\<rparr>
      in case fst d of
           Some e \<Rightarrow> (Inl e, w2)
         | None \<Rightarrow>
             (case files w2 path of
                None \<Rightarrow> (Inl (Exn FileNotFoundError (''File not found: '' @ path)), w2)
              | Some content \<Rightarrow>
                  (if length content = 0
                   then (Inl (Exn ValueError ''Downloaded file is empty''), w2)
                   else
                     (let w3 = w2\<lparr>calls := calls w2 @ [LoadModel ''medium'']\<rparr>
                      in case whisper_load_model E ''medium'' of
                           Some e \<Rightarrow> (Inl e, w3)
                         | None \<Rightarrow>
                             (let w4 = w3\<lparr>calls := calls w3 @ [Transcribe path]\<rparr>
                              in case whisper_transcribe E path (files w4) of
                                   Inl e \<Rightarrow> (Inl e, w4)
                                 | Inr result \<Rightarrow>
                                     (case dict_getitem result ''text'' of
                                        Inl e \<Rightarrow> (Inl e, w4)
                                      | Inr text \<Rightarrow>
                                          (let a = analyze_with_claude E w4 text;
                                               w5 = snd a
                                           in case fst a of
                                                Inl e \<Rightarrow> (Inl e, w5)
                                              | Inr analysis \<Rightarrow>
                                                  (let doc = complete_result E filename result text analysis;
                                                       body = json_dumps_indent2 E doc;
                                                       w6 = w5\<lparr>calls := calls w5 @
                                                              [PutObject bucket (result_key E) body]\<rparr>;
                                                       u = s3_put_object E bucket (result_key E) body
                                                             (objects w6);
                                                       w7 = w6\<lparr>objects := snd u\<rparr>
                                                   in case fst u of
                                                        Some e \<Rightarrow> (Inl e, w7)
                                                      | None \<Rightarrow> (Inr doc, w7)))))))))"

text \<open>The \<open>finally\<close> clause: remove the scratch file if it exists.\<close>

definition cleanup :: "string \<Rightarrow> world \<Rightarrow> world" where
  "cleanup path w =
     (if files w path \<noteq> None then w\<lparr>files := (files w)(path := None)\<rparr> else w)"

definition process_audio_file ::
  "env \<Rightarrow> world \<Rightarrow> json \<Rightarrow> string \<Rightarrow> string \<Rightarrow> (exn + json) \<times> world" where
  "process_audio_file E w bucket key filename =
     (let r = process_audio_file_try E w bucket key filename
      in (fst r, cleanup (temp_audio_path E filename) (snd r)))"

section \<open>Request router (\<open>lambda_handler\<close>)\<close>

record response =
  statusCode :: int
  body :: string
  headers :: "(string \<times> string) list option"

definition reply :: "env \<Rightarrow> int \<Rightarrow> dict \<Rightarrow> response" where
  "reply E code d = \<lparr>statusCode = code, body = json_dumps E (JObj d), headers = None\<rparr>"

text \<open>The handler's outermost \<open>except Exception\<close>.\<close>

definition uncaught :: "env \<Rightarrow> exn \<Rightarrow> response" where
  "uncaught E e =
     \<lparr>statusCode = 500,
      body = json_dumps E (JObj [(''error'', JStr (str_exn e))]),
      headers = Some [(''Content-Type'', ''application/json''),
                      (''Access-Control-Allow-Origin'', ''*'')]\<rparr>"

definition qa_with_claude :: "env \<Rightarrow> world \<Rightarrow> json \<Rightarrow> json \<Rightarrow> (exn + json) \<times> world" where
  "qa_with_claude E w transcript_text question =
     (if INFERENCE_PROFILE_ARN = []
      then (Inl (Exn ValueError ''INFERENCE_PROFILE_ARN environment variable is not set''), w)
      else
        (let w1 = w\<lparr>calls := calls w @ [Ask transcript_text question]\<rparr>
         in case claude_answer E transcript_text question of
              Inl e \<Rightarrow> (Inl e, w1)
            | Inr answer \<Rightarrow> (Inr (JStr answer), w1)))"

text \<open>
  \<open>get_transcript_from_s3\<close>: \<open>None\<close> is \<open>JNull\<close>. \<open>transcript_data.get\<close> on a value
  that is not a dictionary raises \<open>AttributeError\<close>.
\<close>

definition get_transcript_from_s3 :: "env \<Rightarrow> world \<Rightarrow> json \<Rightarrow> json \<Rightarrow> (exn + json) \<times> world" where
  "get_transcript_from_s3 E w bucket key =
     (let w1 = w\<lparr>calls := calls w @ [GetObject bucket key]\<rparr>
      in case s3_get_object E (objects w1) bucket key of
           Inl e \<Rightarrow> (Inl e, w1)
         | Inr content \<Rightarrow>
             (case json_loads E content of
                Inl e \<Rightarrow> (Inl e, w1)
              | Inr transcript_data \<Rightarrow>
                  (case transcript_data of
                     JObj d \<Rightarrow>
                       (let transcript =
                              dict_get d ''original_transcript''
                                (dict_get d ''transcript''
                                   (dict_get d ''text'' (JStr [])))
                        in if \<not> truthy transcript then (Inr JNull, w1)
                           else (Inr transcript, w1))
                   | _ \<Rightarrow>
                       (Inl (Exn AttributeError
                               (quote (type_name transcript_data) @
                                '' object has no attribute '' @ quote ''get'')), w1))))"

text \<open>\<open>record['s3']['bucket']['name']\<close> and \<open>record['s3']['object']['key']\<close>.\<close>

definition record_bucket :: "json \<Rightarrow> exn + json" where
  "record_bucket r =
     (case getitem_key r ''s3'' of
        Inl e \<Rightarrow> Inl e
      | Inr s \<Rightarrow>
          (case getitem_key s ''bucket'' of
             Inl e \<Rightarrow> Inl e
           | Inr b \<Rightarrow> getitem_key b ''name''))"

definition record_key :: "json \<Rightarrow> exn + json" where
  "record_key r =
     (case getitem_key r ''s3'' of
        Inl e \<Rightarrow> Inl e
      | Inr s \<Rightarrow>
          (case getitem_key s ''object'' of
             Inl e \<Rightarrow> Inl e
           | Inr b \<Rightarrow> getitem_key b ''key''))"

text \<open>\<open>key.split('/')[-1]\<close>; a key that is not a string has no \<open>split\<close>.\<close>

definition key_filename :: "json \<Rightarrow> exn + string \<times> string" where
  "key_filename key =
     (case key of
        JStr k \<Rightarrow>
          (case getitem_last (split k CHR ''/'') of
             Inl e \<Rightarrow> Inl e
           | Inr filename \<Rightarrow> Inr (k, filename))
      | _ \<Rightarrow>
          Inl (Exn AttributeError
                 (quote (type_name key) @ '' object has no attribute '' @ quote ''split'')))"

text \<open>
  \<open>lambda_handler\<close> is one function with three branches on \<open>operation\<close>; the
  \<open>transcribe\<close> branch and the \<open>q_n_a\<close> branch are \<open>handle_transcribe\<close> and
  \<open>handle_q_n_a\<close>. An exception raised in the \<open>transcribe\<close> branch reaches the
  outermost \<open>except\<close>; the \<open>q_n_a\<close> branch has an inner \<open>try\<close> around the fetch of
  the transcript and the question.
\<close>

definition handle_transcribe :: "env \<Rightarrow> world \<Rightarrow> dict \<Rightarrow> response \<times> world" where
  "handle_transcribe E w event =
     (let records = dict_get event ''Records'' (JArr [])
      in if \<not> truthy records
         then (reply E 400 [(''error'', JStr ''Missing S3 event records for transcription'')], w)
         else
           (case getitem_0 records of
              Inl e \<Rightarrow> (uncaught E e, w)
            | Inr rec \<Rightarrow>
                (case record_bucket rec of
                   Inl e \<Rightarrow> (uncaught E e, w)
                 | Inr bucket \<Rightarrow>
                     (case record_key rec of
                        Inl e \<Rightarrow> (uncaught E e, w)
                      | Inr key \<Rightarrow>
                          (case key_filename key of
                             Inl e \<Rightarrow> (uncaught E e, w)
                           | Inr (k, filename) \<Rightarrow>
                               (if \<not> validate_audio_file k
                                then (reply E 400
                                        [(''error'', JStr
                                           ''Invalid file type or location. Please upload audio files to the audio/ folder.'')],
                                      w)
                                else
                                  (let p = process_audio_file E w bucket k filename
                                   in case fst p of
                                        Inl e \<Rightarrow> (uncaught E e, snd p)
                                      | Inr result \<Rightarrow>
                                          (\<lparr>statusCode = 200, body = json_dumps E result,
                                            headers = None\<rparr>, snd p))))))))"

definition handle_q_n_a :: "env \<Rightarrow> world \<Rightarrow> dict \<Rightarrow> response \<times> world" where
  "handle_q_n_a E w event =
     (let transcript_file = dict_get_none event ''transcript_file'';
          transcript_bucket = dict_get_none event ''transcript_bucket'';
          question = dict_get_none event ''question''
      in if \<not> (truthy transcript_file \<and> truthy transcript_bucket \<and> truthy question)
         then (reply E 400
                 [(''error'', JStr
                    ''Missing required parameters: transcript_file, transcript_bucket, and question'')],
               w)
         else
           (let t = get_transcript_from_s3 E w transcript_bucket transcript_file;
                w1 = snd t
            in case fst t of
                 Inl e \<Rightarrow>
                   (reply E 500 [(''error'', JStr (''Error processing Q&A: '' @ str_exn e))], w1)
               | Inr transcript \<Rightarrow>
                   (if \<not> truthy transcript
                    then (reply E 404 [(''error'', JStr ''Transcript not found or empty'')], w1)
                    else
                      (let a = qa_with_claude E w1 transcript question;
                           w2 = snd a
                       in case fst a of
                            Inl e \<Rightarrow>
                              (reply E 500
                                 [(''error'', JStr (''Error processing Q&A: '' @ str_exn e))], w2)
                          | Inr answer \<Rightarrow>
                              (reply E 200
                                 [(''question'', question),
                                  (''answer'', answer),
                                  (''transcript_file'', transcript_file)], w2)))))"

definition lambda_handler :: "env \<Rightarrow> world \<Rightarrow> dict \<Rightarrow> response \<times> world" where
  "lambda_handler E w event =
     (let operation = dict_get event ''operation'' (JStr ''transcribe'')
      in if operation = JStr ''transcribe'' then handle_transcribe E w event
         else if operation = JStr ''q_n_a'' then handle_q_n_a E w event
         else (reply E 400 [(''error'', JStr (''Invalid operation: '' @ py_str E operation))], w))"

section \<open>An example environment\<close>

text \<open>
  A concrete environment and state, used to evaluate the definitions on examples. The
  storage client looks objects up in the object map and raises \<open>NoSuchKey\<close> for a missing
  one; the speech model returns the content of the file as the text, with no
  \<open>duration\<close> entry (as \<open>whisper\<close> does: its result has \<open>text\<close>, \<open>segments\<close> and
  \<open>language\<close>); the hosted model replies with the transcript it was given; the parser
  knows two documents, \<open>{}\<close> and \<open>{"text": "hi"}\<close>, and rejects everything else
  with a \<open>JSONDecodeError\<close> (one message for every input; nothing reads it).
\<close>

fun join :: "string \<Rightarrow> string list \<Rightarrow> string" where
  "join sep [] = []"
| "join sep [x] = x"
| "join sep (x # y # ys) = x @ sep @ join sep (y # ys)"

fun digits :: "nat \<Rightarrow> string" where
  "digits n =
     (if n < 10 then [char_of (48 + n)] else digits (n div 10) @ [char_of (48 + n mod 10)])"

declare digits.simps [simp del]

definition show_int :: "int \<Rightarrow> string" where
  "show_int i = (if i < 0 then ''-'' @ digits (nat (- i)) else digits (nat i))"

definition dq :: string where
  "dq = [CHR 0x22]"

fun ex_dumps :: "json \<Rightarrow> string" where
  "ex_dumps JNull = ''null''"
| "ex_dumps (JBool b) = (if b then ''true'' else ''false'')"
| "ex_dumps (JInt n) = show_int n"
| "ex_dumps (JFloat m e) = show_int m @ ''p'' @ show_int e"
| "ex_dumps (JStr s) = dq @ s @ dq"
| "ex_dumps (JArr xs) = ''['' @ join '', '' (map ex_dumps xs) @ '']''"
| "ex_dumps (JObj d) =
     ''{'' @ join '', '' (map (\<lambda>(k, v). dq @ k @ dq @ '': '' @ ex_dumps v) d) @ ''}''"

definition doc_text_hi :: string where
  "doc_text_hi = ''{'' @ dq @ ''text'' @ dq @ '': '' @ dq @ ''hi'' @ dq @ ''}''"

definition ex_loads :: "string \<Rightarrow> exn + json" where
  "ex_loads s =
     (if s = ''{}'' then Inr (JObj [])
      else if s = doc_text_hi then Inr (JObj [(''text'', JStr ''hi'')])
      else Inl (Exn JSONDecodeError ''Expecting value: line 1 column 1 (char 0)''))"

definition no_such_key :: exn where
  "no_such_key = Exn ClientError
     ''An error occurred (NoSuchKey) when calling the GetObject operation: The specified key does not exist.''"

definition not_found_404 :: exn where
  "not_found_404 = Exn ClientError
     ''An error occurred (404) when calling the HeadObject operation: Not Found''"

definition ex_download ::
  "objects \<Rightarrow> json \<Rightarrow> string \<Rightarrow> string \<Rightarrow> files \<Rightarrow> exn option \<times> files" where
  "ex_download objs bucket key path fs =
     (case bucket of
        JStr b \<Rightarrow>
          (case objs (b, key) of
             None \<Rightarrow> (Some not_found_404, fs)
           | Some content \<Rightarrow> (None, fs(path \<mapsto> content)))
      | _ \<Rightarrow> (Some (Exn ClientError ''Parameter validation failed''), fs))"

definition ex_put ::
  "json \<Rightarrow> string \<Rightarrow> string \<Rightarrow> objects \<Rightarrow> exn option \<times> objects" where
  "ex_put bucket key content objs =
     (case bucket of
        JStr b \<Rightarrow> (None, objs((b, key) \<mapsto> content))
      | _ \<Rightarrow> (Some (Exn ClientError ''Parameter validation failed''), objs))"

definition ex_get :: "objects \<Rightarrow> json \<Rightarrow> json \<Rightarrow> exn + string" where
  "ex_get objs bucket key =
     (case bucket of
        JStr b \<Rightarrow>
          (case key of
             JStr k \<Rightarrow>
               (case objs (b, k) of None \<Rightarrow> Inl no_such_key | Some content \<Rightarrow> Inr content)
           | _ \<Rightarrow> Inl (Exn ClientError ''Parameter validation failed''))
      | _ \<Rightarrow> Inl (Exn ClientError ''Parameter validation failed''))"

definition ex_transcribe :: "string \<Rightarrow> files \<Rightarrow> exn + dict" where
  "ex_transcribe path fs =
     (case fs path of
        None \<Rightarrow> Inl (Exn RuntimeError ''Failed to load audio'')
      | Some content \<Rightarrow>
          Inr [(''text'', JStr content), (''segments'', JArr []), (''language'', JStr ''en'')])"

definition ex_env :: env where
  "ex_env =
     \<lparr>lambda_function_name = None,
      timestamp = ''20240101_000000'',
      s3_download_file = ex_download,
      s3_put_object = ex_put,
      s3_get_object = ex_get,
      whisper_load_model = (\<lambda>name. None),
      whisper_transcribe = ex_transcribe,
      claude_analysis = (\<lambda>t. Inr (case t of JStr s \<Rightarrow> s | _ \<Rightarrow> [])),
      claude_answer = (\<lambda>t q. Inr ''I cannot answer this question based on the transcript content''),
      json_loads = ex_loads,
      json_dumps = ex_dumps,
      json_dumps_indent2 = ex_dumps,
      py_repr = ex_dumps\<rparr>"

text \<open>
  A state with five objects in bucket \<open>b\<close>: an audio object whose content the example
  model transcribes to \<open>{}\<close>, one it transcribes to \<open>no json here\<close>, an empty audio
  object, a stored transcript \<open>{"text": "hi"}\<close> and a stored document \<open>{}\<close> without
  a transcript.
\<close>

definition ex_objects :: objects where
  "ex_objects =
     [(''b'', ''audio/call1.mp3'') \<mapsto> ''{}'',
      (''b'', ''audio/call2.mp3'') \<mapsto> ''no json here'',
      (''b'', ''audio/empty.mp3'') \<mapsto> [],
      (''b'', ''transcripts/t1.json'') \<mapsto> doc_text_hi,
      (''b'', ''transcripts/t2.json'') \<mapsto> ''{}'']"

definition ex_world :: world where
  "ex_world = \<lparr>files = Map.empty, objects = ex_objects, calls = []\<rparr>"

definition s3_record :: "string \<Rightarrow> string \<Rightarrow> json" where
  "s3_record b k =
     JObj [(''s3'', JObj [(''bucket'', JObj [(''name'', JStr b)]),
                          (''object'', JObj [(''key'', JStr k)])])]"

text \<open>Variants of the example environment in which one collaborator misbehaves.\<close>

definition ex_env_no_write :: env where
  "ex_env_no_write = ex_env\<lparr>s3_download_file := (\<lambda>objs b k p fs. (None, fs))\<rparr>"

definition ex_env_load_fails :: env where
  "ex_env_load_fails =
     ex_env\<lparr>whisper_load_model := (\<lambda>name. Some (Exn RuntimeError ''out of memory''))\<rparr>"

definition ex_env_transcribe_fails :: env where
  "ex_env_transcribe_fails =
     ex_env\<lparr>whisper_transcribe := (\<lambda>p fs. Inl (Exn RuntimeError ''Failed to load audio''))\<rparr>"

definition ex_env_no_text :: env where
  "ex_env_no_text = ex_env\<lparr>whisper_transcribe := (\<lambda>p fs. Inr [])\<rparr>"

definition ex_env_analysis_fails :: env where
  "ex_env_analysis_fails =
     ex_env\<lparr>claude_analysis := (\<lambda>t. Inl (Exn ClientError ''ThrottlingException''))\<rparr>"

text \<open>
  A parser that also gives up on deeply nested text, as \<open>json.loads\<close> does: it raises
  \<open>RecursionError\<close>, not \<open>JSONDecodeError\<close>, once the brackets nest deeper than the
  interpreter's recursion limit. \<open>max_depth s 0 0\<close> is the deepest nesting of brackets
  and braces in \<open>s\<close>.
\<close>

definition recursion_limit :: nat where
  "recursion_limit = 1000"

fun max_depth :: "string \<Rightarrow> nat \<Rightarrow> nat \<Rightarrow> nat" where
  "max_depth [] cur mx = mx"
| "max_depth (c # cs) cur mx =
     (if c = CHR ''['' \<or> c = CHR ''{'' then max_depth cs (cur + 1) (max mx (cur + 1))
      else if c = CHR '']'' \<or> c = CHR ''}'' then max_depth cs (cur - 1) mx
      else max_depth cs cur mx)"

definition recursion_error :: exn where
  "recursion_error = Exn RecursionError
     ''maximum recursion depth exceeded while decoding a JSON array from a unicode string''"

definition ex_loads_deep :: "string \<Rightarrow> exn + json" where
  "ex_loads_deep s =
     (if recursion_limit < max_depth s 0 0 then Inl recursion_error else ex_loads s)"

definition ex_env_deep :: env where
  "ex_env_deep = ex_env\<lparr>json_loads := ex_loads_deep\<rparr>"

text \<open>
  Two replies of the hosted model: an object whose only member is \<open>n\<close> arrays nested in
  one another, and a reply with a brace pair in its \<open>thinking\<close> section before the JSON
  object.
\<close>

definition deep_reply :: "nat \<Rightarrow> string" where
  "deep_reply n =
     ''{'' @ dq @ ''a'' @ dq @ '': '' @ replicate n CHR ''['' @ replicate n CHR '']'' @ ''}''"


text \<open>A run of the pipeline from the example state, on an object of bucket \<open>b\<close>.\<close>

definition ex_run :: "env \<Rightarrow> string \<Rightarrow> string \<Rightarrow> (exn + json) \<times> world" where
  "ex_run E key filename = process_audio_file E ex_world (JStr ''b'') key filename"

definition ex_event :: "string \<Rightarrow> json list \<Rightarrow> dict" where
  "ex_event key others = [(''Records'', JArr (s3_record ''b'' key # others))]"

definition ex_qna :: "string \<Rightarrow> dict" where
  "ex_qna file =
     [(''operation'', JStr ''q_n_a''),
      (''transcript_file'', JStr file),
      (''transcript_bucket'', JStr ''b''),
      (''question'', JStr ''What?'')]"

text \<open>
  The transcript text as the specification words it: the value of the first present of
  the fields \<open>original_transcript\<close>, \<open>transcript\<close>, \<open>text\<close>, in that order; the empty
  string when none is present.
\<close>

definition spec_first_present :: "dict \<Rightarrow> json" where
  "spec_first_present d =
     (case map_of d ''original_transcript'' of
        Some v \<Rightarrow> v
      | None \<Rightarrow>
          (case map_of d ''transcript'' of
             Some v \<Rightarrow> v
           | None \<Rightarrow>
               (case map_of d ''text'' of
                  Some v \<Rightarrow> v
                | None \<Rightarrow> JStr [])))"

text \<open>The number of times a state records that the speech model was loaded.\<close>

fun is_load :: "call \<Rightarrow> bool" where
  "is_load (LoadModel n) = True"
| "is_load c = False"

definition model_loads :: "world \<Rightarrow> nat" where
  "model_loads w = length (filter is_load (calls w))"

fun is_put :: "call \<Rightarrow> bool" where
  "is_put (PutObject b k c) = True"
| "is_put c = False"

section \<open>Properties of the string operations\<close>

lemma find_notin: "c \<notin> set s \<Longrightarrow> find s c = - 1"
  by (induction s) (auto simp: Let_def)


lemma rfind_notin: "c \<notin> set s \<Longrightarrow> rfind s c = - 1"
  by (induction s) (auto simp: Let_def)

lemma rfind_append_last: "c \<notin> set post \<Longrightarrow> rfind (xs @ c # post) c = int (length xs)"
  by (induction xs) (auto simp: Let_def rfind_notin)

section \<open>Properties of the input validator\<close>

lemma lower_char_fixed:
  assumes "(of_char c :: nat) < 65"
  shows "(lower_char x = c) = (x = c)"
proof
  assume eq: "lower_char x = c"
  show "x = c"
  proof (cases "65 \<le> (of_char x :: nat) \<and> (of_char x :: nat) \<le> 90")
    case False
    with eq show ?thesis by (simp add: lower_char_def Let_def)
  next
    case True
    with eq have "c = char_of (of_char x + (32::nat))"
      by (simp add: lower_char_def Let_def)
    then have "(of_char c :: nat) = (of_char x + 32) mod 256"
      by (simp add: of_char_of)
    with True assms show ?thesis by auto
  qed
next
  assume "x = c"
  with assms show "lower_char x = c"
    by (auto simp: lower_char_def Let_def)
qed

lemma lower_char_dot: "(lower_char x = CHR ''.'') = (x = CHR ''.'')"
  by (rule lower_char_fixed) simp
lemma lower_char_slash: "(lower_char x = CHR ''/'') = (x = CHR ''/'')"
  by (rule lower_char_fixed) simp

lemma rfind_map:
  assumes "\<And>x. (f x = c) = (x = c)"
  shows "rfind (map f s) c = rfind s c"
  by (induction s) (simp_all add: assms Let_def)

lemma length_lower: "length (lower s) = length s"
  by (simp add: lower_def)

lemma slice_bound_lower: "slice_bound (lower s) i = slice_bound s i"
  by (simp add: slice_bound_def lower_def Let_def)

lemma slice_lower: "slice (lower s) a b = lower (slice s a b)"
  by (simp add: slice_def slice_bound_lower) (simp add: lower_def take_map drop_map)

lemma slice_to_lower: "slice_to (lower s) b = lower (slice_to s b)"
  by (simp add: slice_to_def slice_bound_lower) (simp add: lower_def take_map)

lemma slice_from_lower: "slice_from (lower s) a = lower (slice_from s a)"
  by (simp add: slice_from_def slice_bound_lower) (simp add: lower_def drop_map)

lemma lower_eq_dot: "(lower s = ''.'') = (s = ''.'')"
  by (cases s) (auto simp: lower_def lower_char_dot)

lemma splitext_loop_lower:
  "splitext_loop (lower p) i d = map_option (\<lambda>(a, b). (lower a, lower b)) (splitext_loop p i d)"
proof (induction p i d rule: splitext_loop.induct)
  case (1 p i d)
  show ?case
  proof (cases "i < d")
    case False
    then show ?thesis by (simp add: splitext_loop.simps)
  next
    case True
    show ?thesis
    proof (cases "slice p i (i + 1) = ''.''")
      case True
      with \<open>i < d\<close> 1 show ?thesis
        by (subst splitext_loop.simps, subst (2) splitext_loop.simps)
           (simp add: slice_lower lower_eq_dot)
    next
      case False
      with \<open>i < d\<close> show ?thesis
        by (subst splitext_loop.simps, subst (2) splitext_loop.simps)
           (simp add: slice_lower lower_eq_dot slice_to_lower slice_from_lower)
    qed
  qed
qed

lemma rfind_lower_dot: "rfind (lower p) CHR ''.'' = rfind p CHR ''.''"
  unfolding lower_def by (rule rfind_map) (rule lower_char_dot)

lemma rfind_lower_slash: "rfind (lower p) CHR ''/'' = rfind p CHR ''/''"
  unfolding lower_def by (rule rfind_map) (rule lower_char_slash)

lemma splitext_lower: "snd (splitext (lower p)) = lower (snd (splitext p))"
  by (auto simp: splitext_def Let_def rfind_lower_dot rfind_lower_slash splitext_loop_lower
      slice_to_lower split: option.splits)

lemma rfind_bound: "rfind s c < int (length s)"
  by (induction s) (auto simp: Let_def)

lemma rfind_nth: "0 \<le> rfind s c \<Longrightarrow> s ! nat (rfind s c) = c"
  by (induction s) (auto simp: Let_def nat_add_distrib split: if_splits)

lemma slice_from_rfind:
  assumes "0 \<le> rfind s c"
  shows "\<exists>t. slice_from s (rfind s c) = c # t"
proof -
  let ?r = "nat (rfind s c)"
  have lt: "?r < length s" using assms rfind_bound [of s c] by simp
  have "slice_bound s (rfind s c) = ?r"
    using assms rfind_bound [of s c] by (simp add: slice_bound_def Let_def)
  then have "slice_from s (rfind s c) = drop ?r s" by (simp add: slice_from_def)
  also have "\<dots> = s ! ?r # drop (Suc ?r) s" using lt by (simp add: Cons_nth_drop_Suc)
  finally show ?thesis using rfind_nth [OF assms] by simp
qed

lemma splitext_loop_Some:
  "splitext_loop p i d = Some r \<Longrightarrow> r = (slice_to p d, slice_from p d)"
proof (induction p i d rule: splitext_loop.induct)
  case (1 p i d)
  from "1.prems" show ?case
    by (subst (asm) splitext_loop.simps) (auto split: if_splits dest: "1.IH")
qed

lemma rfind_ge: "- 1 \<le> rfind s c"
  by (induction s) (auto simp: Let_def)

lemma splitext_ext_shape: "snd (splitext p) = [] \<or> (\<exists>t. snd (splitext p) = CHR ''.'' # t)"
proof (cases "rfind p CHR ''/'' < rfind p CHR ''.''")
  case False
  then show ?thesis by (simp add: splitext_def Let_def slice_to_def slice_bound_def)
next
  case True
  then have nn: "0 \<le> rfind p CHR ''.''" using rfind_ge [of p "CHR ''/''"] by simp
  show ?thesis
  proof (cases "splitext_loop p (rfind p CHR ''/'' + 1) (rfind p CHR ''.'')")
    case None
    with True show ?thesis by (simp add: splitext_def Let_def slice_to_def slice_bound_def)
  next
    case (Some r)
    from splitext_loop_Some [OF Some] slice_from_rfind [OF nn] True Some
    show ?thesis by (auto simp: splitext_def Let_def)
  qed
qed

lemma allowed_drop:
  "e = [] \<or> (\<exists>t. e = CHR ''.'' # t) \<Longrightarrow> (e \<in> set allowed_extensions) = (drop 1 e \<in> set allow_set)"
  by (auto simp: allowed_extensions_def allow_set_def)

lemma rfind_neg_notin: "rfind s c < 0 \<Longrightarrow> c \<notin> set s"
  by (induction s) (auto simp: Let_def split: if_splits)

lemma rfind_split:
  "0 \<le> rfind s c \<Longrightarrow> \<exists>xs ys. s = xs @ c # ys \<and> c \<notin> set ys \<and> rfind s c = int (length xs)"
proof (induction s)
  case Nil
  then show ?case by simp
next
  case (Cons x s)
  show ?case
  proof (cases "0 \<le> rfind s c")
    case True
    from Cons.IH [OF True] obtain xs ys where "s = xs @ c # ys" "c \<notin> set ys" "rfind s c = int (length xs)"
      by blast
    then have "x # s = (x # xs) @ c # ys \<and> c \<notin> set ys \<and> rfind (x # s) c = int (length (x # xs))"
      by (simp add: Let_def)
    then show ?thesis by blast
  next
    case False
    with Cons.prems have xc: "x = c" and r: "rfind (x # s) c = 0"
      by (auto simp: Let_def split: if_splits)
    from False have "c \<notin> set s"
      by (simp add: rfind_neg_notin)
    with xc r have "x # s = [] @ c # s \<and> c \<notin> set s \<and> rfind (x # s) c = int (length ([] :: string))"
      by simp
    then show ?thesis by blast
  qed
qed

lemma slice_one:
  "slice (xs @ x # ys) (int (length xs)) (int (length xs) + 1) = [x]"
  by (simp add: slice_def slice_bound_def Let_def nat_add_distrib)

lemma slice_to_at: "slice_to (xs @ ys) (int (length xs)) = xs"
  by (simp add: slice_to_def slice_bound_def Let_def)

lemma slice_from_at: "slice_from (xs @ ys) (int (length xs)) = ys"
  by (simp add: slice_from_def slice_bound_def Let_def)

lemma splitext_loop_name:
  "splitext_loop (dir @ name @ rest) (int (length dir)) (int (length dir) + int (length name)) =
     (if set name \<subseteq> {CHR ''.''} then None
      else Some (dir @ name, rest))"
proof (induction name arbitrary: dir)
  case Nil
  show ?case by (subst splitext_loop.simps) simp
next
  case (Cons x name)
  have step: "int (length dir) + 1 = int (length (dir @ [x]))" by simp
  have rest': "int (length dir) + int (length (x # name)) = int (length (dir @ [x])) + int (length name)"
    by simp
  have p: "dir @ (x # name) @ rest = (dir @ [x]) @ name @ rest" by simp
  show ?case
  proof (cases "x = CHR ''.''")
    case True
    have "splitext_loop (dir @ (x # name) @ rest) (int (length dir))
            (int (length dir) + int (length (x # name)))
          = splitext_loop (dir @ (x # name) @ rest) (int (length dir) + 1)
            (int (length dir) + int (length (x # name)))"
      using True slice_one [of dir x "name @ rest"]
      by (subst splitext_loop.simps) simp
    also have "\<dots> = splitext_loop ((dir @ [x]) @ name @ rest) (int (length (dir @ [x])))
            (int (length (dir @ [x])) + int (length name))"
      unfolding step rest' p ..
    also have "\<dots> = (if set name \<subseteq> {CHR ''.''} then None else Some ((dir @ [x]) @ name, rest))"
      by (rule Cons.IH)
    finally show ?thesis using True by simp
  next
    case False
    have d: "slice_to (dir @ (x # name) @ rest) (int (length dir) + int (length (x # name))) = dir @ x # name"
      using slice_to_at [of "dir @ x # name" rest] by (simp add: add.commute add.left_commute)
    have e: "slice_from (dir @ (x # name) @ rest) (int (length dir) + int (length (x # name))) = rest"
      using slice_from_at [of "dir @ x # name" rest] by (simp add: add.commute add.left_commute)
    show ?thesis
      using False slice_one [of dir x "name @ rest"] d e
      by (subst splitext_loop.simps) simp
  qed
qed

text \<open>
  The extension in explicit form: a key has the non-empty extension \<open>e\<close> exactly when it
  is a directory part (empty or ending in a slash), a name without slash that is not made
  of dots only, a dot, and \<open>e\<close>, where \<open>e\<close> has no dot and no slash.
\<close>

lemma key_extension_explicit:
  assumes "dir = [] \<or> last dir = CHR ''/''"
    and "CHR ''/'' \<notin> set name"
    and "\<not> set name \<subseteq> {CHR ''.''}"
    and "CHR ''.'' \<notin> set e"
    and "CHR ''/'' \<notin> set e"
  shows "key_extension (dir @ name @ ''.'' @ e) = e"
proof -
  let ?key = "dir @ name @ ''.'' @ e"
  have dot: "rfind ?key CHR ''.'' = int (length dir) + int (length name)"
    using rfind_append_last [OF assms(4), of "dir @ name"] by simp
  have sep: "rfind ?key CHR ''/'' + 1 = int (length dir)"
  proof (cases "dir = []")
    case True
    with assms(2,5) have "CHR ''/'' \<notin> set ?key" by simp
    then have "rfind ?key CHR ''/'' = - 1" by (rule rfind_notin)
    with True show ?thesis by simp
  next
    case False
    with assms(1) have "dir = butlast dir @ [CHR ''/'']"
      by (metis append_butlast_last_id)
    then obtain ds where ds: "dir = ds @ [CHR ''/'']" ..
    have "CHR ''/'' \<notin> set (name @ ''.'' @ e)" using assms(2,5) by simp
    from rfind_append_last [OF this, of ds] ds show ?thesis by simp
  qed
  have lt: "rfind ?key CHR ''/'' < rfind ?key CHR ''.''"
    using dot sep by simp
  have loop: "splitext_loop ?key (rfind ?key CHR ''/'' + 1) (rfind ?key CHR ''.'')
      = Some (dir @ name, ''.'' @ e)"
    unfolding sep dot using splitext_loop_name [of dir name "''.'' @ e"] assms(3) by simp
  show ?thesis
    using lt loop by (simp add: key_extension_def splitext_def Let_def)
qed

lemma key_extension_explicit_conv:
  assumes "key_extension key = e" and "e \<noteq> []"
  shows "\<exists>dir name. key = dir @ name @ ''.'' @ e \<and> (dir = [] \<or> last dir = CHR ''/'') \<and>
           CHR ''/'' \<notin> set name \<and> \<not> set name \<subseteq> {CHR ''.''} \<and>
           CHR ''.'' \<notin> set e \<and> CHR ''/'' \<notin> set e"
proof -
  let ?sep = "rfind key CHR ''/''" and ?dot = "rfind key CHR ''.''"
  from assms have ne: "snd (splitext key) \<noteq> []" by (auto simp: key_extension_def)
  then have lt: "?sep < ?dot"
    by (auto simp: splitext_def Let_def slice_to_def slice_bound_def split: if_splits)
  with ne obtain r where loop: "splitext_loop key (?sep + 1) ?dot = Some r"
    by (auto simp: splitext_def Let_def slice_to_def slice_bound_def split: option.splits)
  from lt rfind_ge [of key "CHR ''/''"] have "0 \<le> ?dot" by simp
  from rfind_split [OF this] obtain xs ys where
    k: "key = xs @ CHR ''.'' # ys" and ys: "CHR ''.'' \<notin> set ys" and dot: "?dot = int (length xs)"
    by blast
  have "\<exists>dir name. xs = dir @ name \<and> (dir = [] \<or> last dir = CHR ''/'') \<and> CHR ''/'' \<notin> set name
      \<and> CHR ''/'' \<notin> set ys \<and> ?sep + 1 = int (length dir)"
  proof (cases "0 \<le> ?sep")
    case False
    then have "?sep = - 1" using rfind_ge [of key "CHR ''/''"] by simp
    moreover have "CHR ''/'' \<notin> set key"
      using False by (simp add: rfind_neg_notin)
    ultimately have "xs = [] @ xs \<and> ([] = [] \<or> last [] = CHR ''/'') \<and> CHR ''/'' \<notin> set xs
      \<and> CHR ''/'' \<notin> set ys \<and> ?sep + 1 = int (length ([] :: string))"
      using k by simp
    then show ?thesis by blast
  next
    case True
    from rfind_split [OF True] obtain us vs where
      k2: "key = us @ CHR ''/'' # vs" and vs: "CHR ''/'' \<notin> set vs" and sep: "?sep = int (length us)"
      by blast
    from lt sep dot have "length us < length xs" by simp
    note len = this
    from k k2 have "us @ CHR ''/'' # vs = xs @ CHR ''.'' # ys" by simp
    then obtain u where
      "(us = xs @ u \<and> u @ CHR ''/'' # vs = CHR ''.'' # ys) \<or>
       (us @ u = xs \<and> CHR ''/'' # vs = u @ CHR ''.'' # ys)"
      by (auto simp: append_eq_append_conv2)
    with len have u: "us @ u = xs" "CHR ''/'' # vs = u @ CHR ''.'' # ys"
      by auto
    with len have "u \<noteq> []" by auto
    with u(2) obtain name where un: "u = CHR ''/'' # name"
      by (cases u) auto
    with u have xs: "xs = us @ CHR ''/'' # name" and vs2: "vs = name @ CHR ''.'' # ys"
      by auto
    then have "xs = (us @ [CHR ''/'']) @ name \<and>
        (us @ [CHR ''/''] = [] \<or> last (us @ [CHR ''/'']) = CHR ''/'') \<and> CHR ''/'' \<notin> set name
        \<and> CHR ''/'' \<notin> set ys \<and> ?sep + 1 = int (length (us @ [CHR ''/'']))"
      using vs sep by simp
    then show ?thesis by blast
  qed
  then obtain dir name where xs: "xs = dir @ name" and dir: "dir = [] \<or> last dir = CHR ''/''"
    and nm: "CHR ''/'' \<notin> set name" and ysl: "CHR ''/'' \<notin> set ys"
    and sep1: "?sep + 1 = int (length dir)"
    by blast
  have key: "key = dir @ name @ CHR ''.'' # ys" using k xs by simp
  have l: "splitext_loop key (?sep + 1) ?dot =
      (if set name \<subseteq> {CHR ''.''} then None else Some (dir @ name, CHR ''.'' # ys))"
    unfolding sep1 dot xs using splitext_loop_name [of dir name "CHR ''.'' # ys"] key by simp
  with loop have nd: "\<not> set name \<subseteq> {CHR ''.''}" and r: "r = (dir @ name, CHR ''.'' # ys)"
    by (auto split: if_splits)
  from lt loop r have "key_extension key = ys"
    by (simp add: key_extension_def splitext_def Let_def)
  with assms(1) have "ys = e" by simp
  with key dir nm nd ys ysl show ?thesis by auto
qed

text \<open>
  C1. For every object key, the input validator returns true if and only if the key begins
  with the literal prefix \<open>audio/\<close> and its extension, compared without regard to case,
  is one of mp3, wav, m4a, flac, ogg, aac. Hence a key that does not start with
  \<open>audio/\<close> is rejected, and so is a key whose extension is outside the allow-set.
  The extension is the one \<open>os.path.splitext\<close> gives for the key.
\<close>

theorem validate_audio_file_iff:
  "validate_audio_file file_key =
     (startswith file_key ''audio/'' \<and> lower (key_extension file_key) \<in> set allow_set)"
proof -
  have shape: "lower (snd (splitext file_key)) = [] \<or>
      (\<exists>t. lower (snd (splitext file_key)) = CHR ''.'' # t)"
    using splitext_ext_shape [of file_key] by (auto simp: lower_def lower_char_dot)
  have "lower (key_extension file_key) = drop 1 (lower (snd (splitext file_key)))"
    by (simp add: key_extension_def lower_def drop_map)
  then show ?thesis
    using allowed_drop [OF shape] by (simp add: validate_audio_file_def Let_def splitext_lower)
qed

section \<open>Properties of the pipeline orchestrator\<close>

text \<open>
  C2. After every run of the pipeline orchestrator, whatever the run returned or raised
  and whatever the collaborators did, the scratch file is absent: the \<open>finally\<close> clause
  runs on every exit path of the \<open>try\<close> block.
\<close>

theorem scratch_file_absent_after_run:
  "files (snd (process_audio_file E w bucket key filename)) (temp_audio_path E filename) = None"
  by (simp add: process_audio_file_def cleanup_def Let_def)

section \<open>Steps of a pipeline run\<close>

text \<open>
  One lemma for each way a run of the \<open>try\<close> block can end: the exception or result it
  returns, the calls it made and the state it leaves.
\<close>

lemma arn_nonempty: "INFERENCE_PROFILE_ARN \<noteq> []"
  by (simp add: INFERENCE_PROFILE_ARN_def)

lemma analyze_world:
  "snd (analyze_with_claude E w t) = w\<lparr>calls := calls w @ [Analyze t]\<rparr>"
  by (simp add: analyze_with_claude_def arn_nonempty Let_def split: sum.splits)

lemma analyze_result_indep:
  "fst (analyze_with_claude E w t) = fst (analyze_with_claude E w0 t)"
  by (simp add: analyze_with_claude_def arn_nonempty Let_def split: sum.splits)

lemma try_download_raises:
  assumes "fst (s3_download_file E (objects w) bucket key (temp_audio_path E filename) (files w)) = Some e"
  shows "process_audio_file_try E w bucket key filename =
    (Inl e, w\<lparr>calls := calls w @ [Download bucket key (temp_audio_path E filename)],
              files := snd (s3_download_file E (objects w) bucket key (temp_audio_path E filename) (files w))\<rparr>)"
  using assms by (simp add: process_audio_file_try_def Let_def)

lemma try_file_missing:
  assumes "fst (s3_download_file E (objects w) bucket key (temp_audio_path E filename) (files w)) = None"
    and "snd (s3_download_file E (objects w) bucket key (temp_audio_path E filename) (files w)) (temp_audio_path E filename) = None"
  shows "process_audio_file_try E w bucket key filename =
    (Inl (Exn FileNotFoundError (''File not found: '' @ temp_audio_path E filename)),
     w\<lparr>calls := calls w @ [Download bucket key (temp_audio_path E filename)],
       files := snd (s3_download_file E (objects w) bucket key (temp_audio_path E filename) (files w))\<rparr>)"
  using assms by (simp add: process_audio_file_try_def Let_def)

lemma try_file_empty:
  assumes "fst (s3_download_file E (objects w) bucket key (temp_audio_path E filename) (files w)) = None"
    and "snd (s3_download_file E (objects w) bucket key (temp_audio_path E filename) (files w)) (temp_audio_path E filename) = Some []"
  shows "process_audio_file_try E w bucket key filename =
    (Inl (Exn ValueError ''Downloaded file is empty''),
     w\<lparr>calls := calls w @ [Download bucket key (temp_audio_path E filename)],
       files := snd (s3_download_file E (objects w) bucket key (temp_audio_path E filename) (files w))\<rparr>)"
  using assms by (simp add: process_audio_file_try_def Let_def)

lemma try_load_raises:
  assumes "fst (s3_download_file E (objects w) bucket key (temp_audio_path E filename) (files w)) = None"
    and "snd (s3_download_file E (objects w) bucket key (temp_audio_path E filename) (files w)) (temp_audio_path E filename) = Some content"
    and "content \<noteq> []"
    and "whisper_load_model E ''medium'' = Some e"
  shows "process_audio_file_try E w bucket key filename =
    (Inl e,
     w\<lparr>calls := calls w @ [Download bucket key (temp_audio_path E filename), LoadModel ''medium''],
       files := snd (s3_download_file E (objects w) bucket key (temp_audio_path E filename) (files w))\<rparr>)"
  using assms by (simp add: process_audio_file_try_def Let_def)

lemma try_transcribe_raises:
  assumes "fst (s3_download_file E (objects w) bucket key (temp_audio_path E filename) (files w)) = None"
    and "snd (s3_download_file E (objects w) bucket key (temp_audio_path E filename) (files w)) (temp_audio_path E filename) = Some content"
    and "content \<noteq> []"
    and "whisper_load_model E ''medium'' = None"
    and "whisper_transcribe E (temp_audio_path E filename)
           (snd (s3_download_file E (objects w) bucket key (temp_audio_path E filename) (files w))) = Inl e"
  shows "process_audio_file_try E w bucket key filename =
    (Inl e,
     w\<lparr>calls := calls w @ [Download bucket key (temp_audio_path E filename), LoadModel ''medium'',
                            Transcribe (temp_audio_path E filename)],
       files := snd (s3_download_file E (objects w) bucket key (temp_audio_path E filename) (files w))\<rparr>)"
  using assms by (simp add: process_audio_file_try_def Let_def)

lemma try_text_missing:
  assumes "fst (s3_download_file E (objects w) bucket key (temp_audio_path E filename) (files w)) = None"
    and "snd (s3_download_file E (objects w) bucket key (temp_audio_path E filename) (files w)) (temp_audio_path E filename) = Some content"
    and "content \<noteq> []"
    and "whisper_load_model E ''medium'' = None"
    and "whisper_transcribe E (temp_audio_path E filename)
           (snd (s3_download_file E (objects w) bucket key (temp_audio_path E filename) (files w))) = Inr result"
    and "map_of result ''text'' = None"
  shows "process_audio_file_try E w bucket key filename =
    (Inl (Exn KeyError (quote ''text'')),
     w\<lparr>calls := calls w @ [Download bucket key (temp_audio_path E filename), LoadModel ''medium'',
                            Transcribe (temp_audio_path E filename)],
       files := snd (s3_download_file E (objects w) bucket key (temp_audio_path E filename) (files w))\<rparr>)"
  using assms by (simp add: process_audio_file_try_def Let_def dict_getitem_def)

lemma try_analysis_raises:
  assumes "fst (s3_download_file E (objects w) bucket key (temp_audio_path E filename) (files w)) = None"
    and "snd (s3_download_file E (objects w) bucket key (temp_audio_path E filename) (files w)) (temp_audio_path E filename) = Some content"
    and "content \<noteq> []"
    and "whisper_load_model E ''medium'' = None"
    and "whisper_transcribe E (temp_audio_path E filename)
           (snd (s3_download_file E (objects w) bucket key (temp_audio_path E filename) (files w))) = Inr result"
    and "map_of result ''text'' = Some text"
    and "fst (analyze_with_claude E w text) = Inl e"
  shows "process_audio_file_try E w bucket key filename =
    (Inl e,
     w\<lparr>calls := calls w @ [Download bucket key (temp_audio_path E filename), LoadModel ''medium'',
                            Transcribe (temp_audio_path E filename), Analyze text],
       files := snd (s3_download_file E (objects w) bucket key (temp_audio_path E filename) (files w))\<rparr>)"
proof -
  have a: "\<And>W. fst (analyze_with_claude E W text) = Inl e"
    using assms(7) analyze_result_indep [of E _ "text" w] by simp
  show ?thesis
    using assms(1-6) a
    by (simp add: process_audio_file_try_def Let_def dict_getitem_def analyze_world)
qed


lemma try_reaches_put:
  assumes "fst (s3_download_file E (objects w) bucket key (temp_audio_path E filename) (files w)) = None"
    and "snd (s3_download_file E (objects w) bucket key (temp_audio_path E filename) (files w)) (temp_audio_path E filename) = Some content"
    and "content \<noteq> []"
    and "whisper_load_model E ''medium'' = None"
    and "whisper_transcribe E (temp_audio_path E filename)
           (snd (s3_download_file E (objects w) bucket key (temp_audio_path E filename) (files w))) = Inr result"
    and "map_of result ''text'' = Some text"
    and "fst (analyze_with_claude E w text) = Inr analysis"
  shows "process_audio_file_try E w bucket key filename =
    ((case fst (s3_put_object E bucket (result_key E)
                  (json_dumps_indent2 E (complete_result E filename result text analysis)) (objects w)) of
        Some e \<Rightarrow> Inl e
      | None \<Rightarrow> Inr (complete_result E filename result text analysis)),
     w\<lparr>calls := calls w @ [Download bucket key (temp_audio_path E filename), LoadModel ''medium'',
                            Transcribe (temp_audio_path E filename), Analyze text,
                            PutObject bucket (result_key E)
                              (json_dumps_indent2 E (complete_result E filename result text analysis))],
       files := snd (s3_download_file E (objects w) bucket key (temp_audio_path E filename) (files w)),
       objects := snd (s3_put_object E bucket (result_key E)
                  (json_dumps_indent2 E (complete_result E filename result text analysis)) (objects w))\<rparr>)"
proof -
  have a: "\<And>W. fst (analyze_with_claude E W text) = Inr analysis"
    using assms(7) analyze_result_indep [of E _ "text" w] by simp
  show ?thesis
    using assms(1-6) a
    by (simp add: process_audio_file_try_def Let_def dict_getitem_def analyze_world
        split: option.splits)
qed

text \<open>Every run falls under exactly one of the step lemmas.\<close>

lemma try_cases:
  fixes E w bucket key filename
  defines "path \<equiv> temp_audio_path E filename"
  defines "d \<equiv> s3_download_file E (objects w) bucket key path (files w)"
  obtains
    (download) e where "fst d = Some e"
  | (missing) "fst d = None" "snd d path = None"
  | (empty) "fst d = None" "snd d path = Some []"
  | (load) content e where "fst d = None" "snd d path = Some content" "content \<noteq> []"
      "whisper_load_model E ''medium'' = Some e"
  | (transcribe) content e where "fst d = None" "snd d path = Some content" "content \<noteq> []"
      "whisper_load_model E ''medium'' = None" "whisper_transcribe E path (snd d) = Inl e"
  | (notext) content result where "fst d = None" "snd d path = Some content" "content \<noteq> []"
      "whisper_load_model E ''medium'' = None" "whisper_transcribe E path (snd d) = Inr result"
      "map_of result ''text'' = None"
  | (analysis) content result tx e where "fst d = None" "snd d path = Some content" "content \<noteq> []"
      "whisper_load_model E ''medium'' = None" "whisper_transcribe E path (snd d) = Inr result"
      "map_of result ''text'' = Some tx" "fst (analyze_with_claude E w tx) = Inl e"
  | (put) content result tx analysis where "fst d = None" "snd d path = Some content" "content \<noteq> []"
      "whisper_load_model E ''medium'' = None" "whisper_transcribe E path (snd d) = Inr result"
      "map_of result ''text'' = Some tx" "fst (analyze_with_claude E w tx) = Inr analysis"
proof (cases "fst d")
  case (Some e) then show ?thesis by (rule download)
next
  case None
  note dn = this
  show ?thesis
  proof (cases "snd d path")
    case None with dn show ?thesis by (rule missing)
  next
    case (Some content)
    note c = this
    show ?thesis
    proof (cases "content = []")
      case True with dn c show ?thesis by (simp add: empty)
    next
      case False
      note ne = this
      show ?thesis
      proof (cases "whisper_load_model E ''medium''")
        case (Some e) with dn c ne show ?thesis by (rule load)
      next
        case None
        note l = this
        show ?thesis
        proof (cases "whisper_transcribe E path (snd d)")
          case (Inl e) with dn c ne l show ?thesis by (rule transcribe)
        next
          case (Inr result)
          note r = this
          show ?thesis
          proof (cases "map_of result ''text''")
            case None with dn c ne l r show ?thesis by (rule notext)
          next
            case (Some tx)
            note t = this
            show ?thesis
            proof (cases "fst (analyze_with_claude E w tx)")
              case (Inl e) with dn c ne l r t show ?thesis by (rule analysis)
            next
              case (Inr a) with dn c ne l r t show ?thesis by (rule put)
            qed
          qed
        qed
      qed
    qed
  qed
qed

lemmas ex_defs = ex_env_def ex_world_def ex_objects_def ex_download_def ex_put_def ex_get_def
  ex_transcribe_def ex_loads_def ex_env_no_write_def ex_env_load_fails_def
  ex_env_transcribe_fails_def ex_env_no_text_def ex_env_analysis_fails_def
  not_found_404_def no_such_key_def doc_text_hi_def dq_def s3_record_def

lemmas run_defs = process_audio_file_def process_audio_file_try_def cleanup_def
  temp_audio_path_def path_join_def startswith_def analyze_with_claude_def
  INFERENCE_PROFILE_ARN_def dict_getitem_def dict_get_def dict_get_none_def
  slice_def slice_to_def slice_bound_def complete_result_def result_key_def Let_def

lemma valid_call3: "validate_audio_file ''audio/call3.mp3''"
  by code_simp

section \<open>Properties of the analysis adapter\<close>


lemma slice_to_take: "0 \<le> n \<Longrightarrow> slice_to s n = take (nat n) s"
  by (auto simp: slice_to_def slice_bound_def Let_def)


lemma max_depth_mono: "mx \<le> max_depth s cur mx"
proof (induction s arbitrary: cur mx)
  case Nil
  show ?case by simp
next
  case (Cons c s)
  have "mx \<le> max mx (cur + 1)" by simp
  also have "\<dots> \<le> max_depth s (cur + 1) (max mx (cur + 1))" by (rule Cons.IH)
  finally have a: "mx \<le> max_depth s (cur + 1) (max mx (cur + 1))" .
  show ?case using a Cons.IH [of mx "cur - 1"] Cons.IH [of mx cur] by simp
qed

lemma max_depth_open:
  "cur + n \<le> max_depth (replicate n CHR ''['' @ rest) cur (max mx cur)"
proof (induction n arbitrary: cur mx)
  case 0
  have "max mx cur \<le> max_depth rest cur (max mx cur)" by (rule max_depth_mono)
  then show ?case by simp
next
  case (Suc n)
  have "cur + 1 + n \<le> max_depth (replicate n CHR ''['' @ rest) (cur + 1) (max (max mx cur) (cur + 1))"
    by (rule Suc.IH)
  then show ?case by simp
qed

lemma max_depth_deep_reply: "n < max_depth (deep_reply n) 0 0"
proof -
  have "1 + n \<le> max_depth (replicate n CHR ''['' @ replicate n CHR '']'' @ ''}'') 1 (max 1 1)"
    by (rule max_depth_open)
  then show ?thesis by (simp add: deep_reply_def dq_def)
qed

lemma slice_whole: "slice s 0 (int (length s)) = s"
  by (simp add: slice_def slice_bound_def Let_def)

lemma deep_reply_extracted:
  "slice (deep_reply n) (find (deep_reply n) CHR ''{'') (rfind (deep_reply n) CHR ''}'' + 1)
     = deep_reply n"
proof -
  have f: "find (deep_reply n) CHR ''{'' = 0"
    by (simp add: deep_reply_def)
  have "CHR ''}'' \<notin> set ([] :: string)" by simp
  from rfind_append_last [OF this, of "''{'' @ dq @ ''a'' @ dq @ '': '' @ replicate n CHR ''['' @ replicate n CHR '']''"]
  have r: "rfind (deep_reply n) CHR ''}'' + 1 = int (length (deep_reply n))"
    by (simp add: deep_reply_def)
  show ?thesis unfolding f r by (rule slice_whole)
qed

lemma deep_reply_loads:
  "recursion_limit \<le> n \<Longrightarrow> ex_loads_deep (deep_reply n) = Inl recursion_error"
  using max_depth_deep_reply [of n] by (simp add: ex_loads_deep_def)

text \<open>
  C4, as stated, fails: not every failure to parse is caught. On a reply whose object
  nests 100000 arrays the parser raises \<open>RecursionError\<close>, which the inner \<open>except\<close>
  does not catch, and the analysis adapter raises it.
\<close>

theorem analysis_raises_on_deep_nesting:
  "json_loads ex_env_deep
     (slice (deep_reply 100000) (find (deep_reply 100000) CHR ''{'')
        (rfind (deep_reply 100000) CHR ''}'' + 1)) = Inl recursion_error
   \<and> fst (analyze_with_claude ex_env_deep ex_world (JStr (deep_reply 100000)))
       = Inl recursion_error"
proof -
  have l: "ex_loads_deep (deep_reply 100000) = Inl recursion_error"
    by (rule deep_reply_loads) (simp add: recursion_limit_def)
  have a: "json_loads ex_env_deep
     (slice (deep_reply 100000) (find (deep_reply 100000) CHR ''{'')
        (rfind (deep_reply 100000) CHR ''}'' + 1)) = Inl recursion_error"
    unfolding deep_reply_extracted using l by (simp add: ex_env_deep_def ex_env_def)
  have c: "claude_analysis ex_env_deep (JStr (deep_reply 100000)) = Inr (deep_reply 100000)"
    by (simp add: ex_env_deep_def ex_env_def)
  have "fst (analyze_with_claude ex_env_deep ex_world (JStr (deep_reply 100000)))
       = Inl recursion_error"
    using a c by (simp add: analyze_with_claude_def arn_nonempty Let_def recursion_error_def)
  with a show ?thesis by simp
qed

text \<open>
  C4, amended. When parsing the substring extracted from the hosted model's reply raises
  \<open>JSONDecodeError\<close>, the analysis adapter does not raise: it returns a document with
  an \<open>error\<close> field, a \<open>raw_response\<close> field holding the whole reply and a \<open>summary\<close>
  field holding the first 500 characters of the reply, which is at most 500 characters
  long. When parsing raises any other exception, the adapter raises that exception.
\<close>

theorem degraded_analysis_on_parse_failure:
  assumes "claude_analysis E t = Inr raw"
  shows "(json_loads E (slice raw (find raw CHR ''{'') (rfind raw CHR ''}'' + 1))
            = Inl (Exn JSONDecodeError m) \<longrightarrow>
          fst (analyze_with_claude E w t) =
            Inr (JObj [(''summary'', JStr (take 500 raw)),
                       (''error'', JStr ''Failed to parse structured response''),
                       (''raw_response'', JStr raw)])
          \<and> length (take 500 raw) \<le> 500)
         \<and> (json_loads E (slice raw (find raw CHR ''{'') (rfind raw CHR ''}'' + 1)) = Inl e
            \<and> exn_kind_of e \<noteq> JSONDecodeError \<longrightarrow>
          fst (analyze_with_claude E w t) = Inl e)"
  using assms
  by (simp add: analyze_with_claude_def arn_nonempty Let_def slice_to_take)

theorem degraded_analysis_on_parse_failure_witness:
  "(fst (analyze_with_claude ex_env ex_world (JStr ''no json here'')) =
           Inr (JObj [(''summary'', JStr (take 500 ''no json here'')),
                      (''error'', JStr ''Failed to parse structured response''),
                      (''raw_response'', JStr ''no json here'')])
         \<and> length (take 500 ''no json here'') \<le> 500)
   \<and> fst (analyze_with_claude ex_env_deep ex_world (JStr (deep_reply 2000))) = Inl recursion_error"
proof -
  have a: "claude_analysis ex_env (JStr ''no json here'') = Inr ''no json here''"
    by (simp add: ex_defs)
  have b: "json_loads ex_env (slice ''no json here'' (find ''no json here'' CHR ''{'')
             (rfind ''no json here'' CHR ''}'' + 1))
           = Inl (Exn JSONDecodeError ''Expecting value: line 1 column 1 (char 0)'')"
    by (simp add: ex_defs slice_def slice_bound_def Let_def)
  note p1 = degraded_analysis_on_parse_failure [OF a, THEN conjunct1, THEN mp, OF b]
  have c: "claude_analysis ex_env_deep (JStr (deep_reply 2000)) = Inr (deep_reply 2000)"
    by (simp add: ex_env_deep_def ex_env_def)
  have l: "ex_loads_deep (deep_reply 2000) = Inl recursion_error"
    by (rule deep_reply_loads) (simp add: recursion_limit_def)
  have d: "json_loads ex_env_deep
     (slice (deep_reply 2000) (find (deep_reply 2000) CHR ''{'')
        (rfind (deep_reply 2000) CHR ''}'' + 1)) = Inl recursion_error
     \<and> exn_kind_of recursion_error \<noteq> JSONDecodeError"
    unfolding deep_reply_extracted using l
    by (simp add: ex_env_deep_def ex_env_def recursion_error_def)
  note p2 = degraded_analysis_on_parse_failure [OF c, THEN conjunct2, THEN mp, OF d]
  from p1 p2 show ?thesis by blast
qed





section \<open>Failure of a step\<close>

lemma cleanup_calls: "calls (cleanup p w) = calls w"
  by (simp add: cleanup_def)

lemma cleanup_objects: "objects (cleanup p w) = objects w"
  by (simp add: cleanup_def)

lemma run_fst: "fst (process_audio_file E w bucket key filename) = fst (process_audio_file_try E w bucket key filename)"
  by (simp add: process_audio_file_def Let_def)

lemma run_calls: "calls (snd (process_audio_file E w bucket key filename)) = calls (snd (process_audio_file_try E w bucket key filename))"
  by (simp add: process_audio_file_def Let_def cleanup_calls)

lemma run_objects: "objects (snd (process_audio_file E w bucket key filename)) = objects (snd (process_audio_file_try E w bucket key filename))"
  by (simp add: process_audio_file_def Let_def cleanup_objects)

lemmas run_simps = run_fst run_calls run_objects

lemma split_nonempty: "split s c \<noteq> []"
  by (induction s) (auto split: list.splits)

lemma handler_transcribe_run:
  assumes "dict_get event ''operation'' (JStr ''transcribe'') = JStr ''transcribe''"
    and "dict_get event ''Records'' (JArr []) = JArr (r # rest)"
    and "record_bucket r = Inr bucket"
    and "record_key r = Inr (JStr k)"
    and "validate_audio_file k"
  shows "lambda_handler E w event =
     ((case fst (process_audio_file E w bucket k (last (split k CHR ''/''))) of
         Inl e \<Rightarrow> uncaught E e
       | Inr result \<Rightarrow> \<lparr>statusCode = 200, body = json_dumps E result, headers = None\<rparr>),
      snd (process_audio_file E w bucket k (last (split k CHR ''/''))))"
proof -
  have "key_filename (JStr k) = Inr (k, last (split k CHR ''/''))"
    using split_nonempty [of k "CHR ''/''"]
    by (simp add: key_filename_def getitem_last_def split: list.splits)
  then show ?thesis
    using assms
    by (simp add: lambda_handler_def handle_transcribe_def Let_def split: sum.splits)
qed

text \<open>
  C3. In every run of the pipeline orchestrator in which a step fails (the download
  raises; the scratch file is absent or empty after the download; loading the model or
  transcribing raises, or the result has no text; the analysis raises), the run raises that
  exception, the only external calls it made are those up to the failing step, and the
  object store is unchanged. A run that issued \<open>put_object\<close> or changed the object store
  is one in which every prior step succeeded. A failure of the run reaches the request
  router, which answers with status 500 and the exception's message.
\<close>

theorem failure_aborts_run:
  fixes E w bucket key filename
  defines "path \<equiv> temp_audio_path E filename"
  defines "d \<equiv> s3_download_file E (objects w) bucket key path (files w)"
  defines "run \<equiv> process_audio_file E w bucket key filename"
  shows
    "(fst d = Some e_dl \<longrightarrow>
        fst run = Inl e_dl \<and> calls (snd run) = calls w @ [Download bucket key path] \<and>
        objects (snd run) = objects w)
     \<and> (fst d = None \<and> snd d path = None \<longrightarrow>
        fst run = Inl (Exn FileNotFoundError (''File not found: '' @ path)) \<and>
        calls (snd run) = calls w @ [Download bucket key path] \<and>
        objects (snd run) = objects w)
     \<and> (fst d = None \<and> snd d path = Some [] \<longrightarrow>
        fst run = Inl (Exn ValueError ''Downloaded file is empty'') \<and>
        calls (snd run) = calls w @ [Download bucket key path] \<and>
        objects (snd run) = objects w)
     \<and> (fst d = None \<and> snd d path = Some c_ld \<and> c_ld \<noteq> [] \<and>
        whisper_load_model E ''medium'' = Some e_ld \<longrightarrow>
        fst run = Inl e_ld \<and>
        calls (snd run) = calls w @ [Download bucket key path, LoadModel ''medium''] \<and>
        objects (snd run) = objects w)
     \<and> (fst d = None \<and> snd d path = Some c_tr \<and> c_tr \<noteq> [] \<and>
        whisper_load_model E ''medium'' = None \<and>
        whisper_transcribe E path (snd d) = Inl e_tr \<longrightarrow>
        fst run = Inl e_tr \<and>
        calls (snd run) =
          calls w @ [Download bucket key path, LoadModel ''medium'', Transcribe path] \<and>
        objects (snd run) = objects w)
     \<and> (fst d = None \<and> snd d path = Some c_nt \<and> c_nt \<noteq> [] \<and>
        whisper_load_model E ''medium'' = None \<and>
        whisper_transcribe E path (snd d) = Inr r_nt \<and> map_of r_nt ''text'' = None \<longrightarrow>
        fst run = Inl (Exn KeyError (quote ''text'')) \<and>
        calls (snd run) =
          calls w @ [Download bucket key path, LoadModel ''medium'', Transcribe path] \<and>
        objects (snd run) = objects w)
     \<and> (fst d = None \<and> snd d path = Some c_an \<and> c_an \<noteq> [] \<and>
        whisper_load_model E ''medium'' = None \<and>
        whisper_transcribe E path (snd d) = Inr r_an \<and> map_of r_an ''text'' = Some t_an \<and>
        fst (analyze_with_claude E w t_an) = Inl e_an \<longrightarrow>
        fst run = Inl e_an \<and>
        calls (snd run) =
          calls w @ [Download bucket key path, LoadModel ''medium'', Transcribe path,
                     Analyze t_an] \<and>
        objects (snd run) = objects w)
     \<and> (list_ex is_put (drop (length (calls w)) (calls (snd run))) \<or>
        objects (snd run) \<noteq> objects w \<longrightarrow>
        (\<exists>content result tx analysis.
           fst d = None \<and> snd d path = Some content \<and> content \<noteq> [] \<and>
           whisper_load_model E ''medium'' = None \<and>
           whisper_transcribe E path (snd d) = Inr result \<and>
           map_of result ''text'' = Some tx \<and>
           fst (analyze_with_claude E w tx) = Inr analysis))
     \<and> (dict_get event ''operation'' (JStr ''transcribe'') = JStr ''transcribe'' \<and>
        dict_get event ''Records'' (JArr []) = JArr (r # rest) \<and>
        record_bucket r = Inr bucket \<and> record_key r = Inr (JStr key) \<and>
        validate_audio_file key \<and> filename = last (split key CHR ''/'') \<and>
        fst run = Inl e_rt \<longrightarrow>
        lambda_handler E w event = (uncaught E e_rt, snd run) \<and>
        statusCode (uncaught E e_rt) = 500 \<and>
        body (uncaught E e_rt) = json_dumps E (JObj [(''error'', JStr (str_exn e_rt))]))"
proof (intro conjI impI)
  assume "fst d = Some e_dl"
  then show "fst run = Inl e_dl" "calls (snd run) = calls w @ [Download bucket key path]"
    "objects (snd run) = objects w"
    unfolding d_def run_def path_def by (simp_all add: run_simps try_download_raises)
next
  assume "fst d = None \<and> snd d path = None"
  then show "fst run = Inl (Exn FileNotFoundError (''File not found: '' @ path))"
    "calls (snd run) = calls w @ [Download bucket key path]"
    "objects (snd run) = objects w"
    unfolding d_def run_def path_def by (simp_all add: run_simps try_file_missing)
next
  assume "fst d = None \<and> snd d path = Some []"
  then show "fst run = Inl (Exn ValueError ''Downloaded file is empty'')"
    "calls (snd run) = calls w @ [Download bucket key path]"
    "objects (snd run) = objects w"
    unfolding d_def run_def path_def by (simp_all add: run_simps try_file_empty)
next
  assume "fst d = None \<and> snd d path = Some c_ld \<and> c_ld \<noteq> [] \<and>
        whisper_load_model E ''medium'' = Some e_ld"
  then show "fst run = Inl e_ld"
    "calls (snd run) = calls w @ [Download bucket key path, LoadModel ''medium'']"
    "objects (snd run) = objects w"
    unfolding d_def run_def path_def by (simp_all add: run_simps try_load_raises)
next
  assume "fst d = None \<and> snd d path = Some c_tr \<and> c_tr \<noteq> [] \<and>
        whisper_load_model E ''medium'' = None \<and>
        whisper_transcribe E path (snd d) = Inl e_tr"
  then show "fst run = Inl e_tr"
    "calls (snd run) = calls w @ [Download bucket key path, LoadModel ''medium'', Transcribe path]"
    "objects (snd run) = objects w"
    unfolding d_def run_def path_def by (simp_all add: run_simps try_transcribe_raises)
next
  assume "fst d = None \<and> snd d path = Some c_nt \<and> c_nt \<noteq> [] \<and>
        whisper_load_model E ''medium'' = None \<and>
        whisper_transcribe E path (snd d) = Inr r_nt \<and> map_of r_nt ''text'' = None"
  then show "fst run = Inl (Exn KeyError (quote ''text''))"
    "calls (snd run) = calls w @ [Download bucket key path, LoadModel ''medium'', Transcribe path]"
    "objects (snd run) = objects w"
    unfolding d_def run_def path_def by (simp_all add: run_simps try_text_missing)
next
  assume "fst d = None \<and> snd d path = Some c_an \<and> c_an \<noteq> [] \<and>
        whisper_load_model E ''medium'' = None \<and>
        whisper_transcribe E path (snd d) = Inr r_an \<and> map_of r_an ''text'' = Some t_an \<and>
        fst (analyze_with_claude E w t_an) = Inl e_an"
  then show "fst run = Inl e_an"
    "calls (snd run) =
          calls w @ [Download bucket key path, LoadModel ''medium'', Transcribe path, Analyze t_an]"
    "objects (snd run) = objects w"
    unfolding d_def run_def path_def by (simp_all add: run_simps try_analysis_raises)
next
  assume h: "list_ex is_put (drop (length (calls w)) (calls (snd run))) \<or>
        objects (snd run) \<noteq> objects w"
  show "\<exists>content result tx analysis.
           fst d = None \<and> snd d path = Some content \<and> content \<noteq> [] \<and>
           whisper_load_model E ''medium'' = None \<and>
           whisper_transcribe E path (snd d) = Inr result \<and>
           map_of result ''text'' = Some tx \<and>
           fst (analyze_with_claude E w tx) = Inr analysis"
  proof (cases rule: try_cases [of E w bucket key filename])
    case (download e)
    with h show ?thesis
      unfolding d_def run_def path_def by (simp add: run_simps try_download_raises)
  next
    case missing
    with h show ?thesis
      unfolding d_def run_def path_def by (simp add: run_simps try_file_missing)
  next
    case empty
    with h show ?thesis
      unfolding d_def run_def path_def by (simp add: run_simps try_file_empty)
  next
    case (load content e)
    with h show ?thesis
      unfolding d_def run_def path_def by (simp add: run_simps try_load_raises)
  next
    case (transcribe content e)
    with h show ?thesis
      unfolding d_def run_def path_def by (simp add: run_simps try_transcribe_raises)
  next
    case (notext content result)
    with h show ?thesis
      unfolding d_def run_def path_def by (simp add: run_simps try_text_missing)
  next
    case (analysis content result tx e)
    with h show ?thesis
      unfolding d_def run_def path_def by (simp add: run_simps try_analysis_raises)
  next
    case (put content result tx analysis)
    then show ?thesis
      unfolding d_def run_def path_def by blast
  qed
next
  assume a: "dict_get event ''operation'' (JStr ''transcribe'') = JStr ''transcribe'' \<and>
        dict_get event ''Records'' (JArr []) = JArr (r # rest) \<and>
        record_bucket r = Inr bucket \<and> record_key r = Inr (JStr key) \<and>
        validate_audio_file key \<and> filename = last (split key CHR ''/'') \<and>
        fst run = Inl e_rt"
  then show "lambda_handler E w event = (uncaught E e_rt, snd run)"
    unfolding run_def using handler_transcribe_run [of event r rest bucket key E w] by auto
  show "statusCode (uncaught E e_rt) = 500"
    by (simp add: uncaught_def)
  show "body (uncaught E e_rt) = json_dumps E (JObj [(''error'', JStr (str_exn e_rt))])"
    by (simp add: uncaught_def)
qed

theorem failure_aborts_run_witness:
  "(fst (ex_run ex_env ''audio/call3.mp3'' ''call3.mp3'') = Inl not_found_404
    \<and> calls (snd (ex_run ex_env ''audio/call3.mp3'' ''call3.mp3'')) = calls ex_world @ [Download (JStr ''b'') ''audio/call3.mp3'' (temp_audio_path ex_env ''call3.mp3'')]
    \<and> objects (snd (ex_run ex_env ''audio/call3.mp3'' ''call3.mp3'')) = objects ex_world)
   \<and> (fst (ex_run ex_env_no_write ''audio/call1.mp3'' ''call1.mp3'') = Inl (Exn FileNotFoundError (''File not found: '' @ temp_audio_path ex_env_no_write ''call1.mp3''))
    \<and> calls (snd (ex_run ex_env_no_write ''audio/call1.mp3'' ''call1.mp3'')) = calls ex_world @ [Download (JStr ''b'') ''audio/call1.mp3'' (temp_audio_path ex_env_no_write ''call1.mp3'')]
    \<and> objects (snd (ex_run ex_env_no_write ''audio/call1.mp3'' ''call1.mp3'')) = objects ex_world)
   \<and> (fst (ex_run ex_env ''audio/empty.mp3'' ''empty.mp3'') = Inl (Exn ValueError ''Downloaded file is empty'')
    \<and> calls (snd (ex_run ex_env ''audio/empty.mp3'' ''empty.mp3'')) = calls ex_world @ [Download (JStr ''b'') ''audio/empty.mp3'' (temp_audio_path ex_env ''empty.mp3'')]
    \<and> objects (snd (ex_run ex_env ''audio/empty.mp3'' ''empty.mp3'')) = objects ex_world)
   \<and> (fst (ex_run ex_env_load_fails ''audio/call1.mp3'' ''call1.mp3'') = Inl (Exn RuntimeError ''out of memory'')
    \<and> calls (snd (ex_run ex_env_load_fails ''audio/call1.mp3'' ''call1.mp3'')) = calls ex_world @ [Download (JStr ''b'') ''audio/call1.mp3'' (temp_audio_path ex_env_load_fails ''call1.mp3''), LoadModel ''medium'']
    \<and> objects (snd (ex_run ex_env_load_fails ''audio/call1.mp3'' ''call1.mp3'')) = objects ex_world)
   \<and> (fst (ex_run ex_env_transcribe_fails ''audio/call1.mp3'' ''call1.mp3'') = Inl (Exn RuntimeError ''Failed to load audio'')
    \<and> calls (snd (ex_run ex_env_transcribe_fails ''audio/call1.mp3'' ''call1.mp3'')) = calls ex_world @ [Download (JStr ''b'') ''audio/call1.mp3'' (temp_audio_path ex_env_transcribe_fails ''call1.mp3''), LoadModel ''medium'', Transcribe (temp_audio_path ex_env_transcribe_fails ''call1.mp3'')]
    \<and> objects (snd (ex_run ex_env_transcribe_fails ''audio/call1.mp3'' ''call1.mp3'')) = objects ex_world)
   \<and> (fst (ex_run ex_env_no_text ''audio/call1.mp3'' ''call1.mp3'') = Inl (Exn KeyError (quote ''text''))
    \<and> calls (snd (ex_run ex_env_no_text ''audio/call1.mp3'' ''call1.mp3'')) = calls ex_world @ [Download (JStr ''b'') ''audio/call1.mp3'' (temp_audio_path ex_env_no_text ''call1.mp3''), LoadModel ''medium'', Transcribe (temp_audio_path ex_env_no_text ''call1.mp3'')]
    \<and> objects (snd (ex_run ex_env_no_text ''audio/call1.mp3'' ''call1.mp3'')) = objects ex_world)
   \<and> (fst (ex_run ex_env_analysis_fails ''audio/call1.mp3'' ''call1.mp3'') = Inl (Exn ClientError ''ThrottlingException'')
    \<and> calls (snd (ex_run ex_env_analysis_fails ''audio/call1.mp3'' ''call1.mp3'')) = calls ex_world @ [Download (JStr ''b'') ''audio/call1.mp3'' (temp_audio_path ex_env_analysis_fails ''call1.mp3''), LoadModel ''medium'', Transcribe (temp_audio_path ex_env_analysis_fails ''call1.mp3''), Analyze (JStr ''{}'')]
    \<and> objects (snd (ex_run ex_env_analysis_fails ''audio/call1.mp3'' ''call1.mp3'')) = objects ex_world)
   \<and> (\<exists>content result tx analysis.
       fst (s3_download_file ex_env (objects ex_world) (JStr ''b'') ''audio/call1.mp3'' (temp_audio_path ex_env ''call1.mp3'') (files ex_world)) = None \<and>
       snd (s3_download_file ex_env (objects ex_world) (JStr ''b'') ''audio/call1.mp3'' (temp_audio_path ex_env ''call1.mp3'') (files ex_world)) (temp_audio_path ex_env ''call1.mp3'') = Some content \<and> content \<noteq> [] \<and>
       whisper_load_model ex_env ''medium'' = None \<and>
       whisper_transcribe ex_env (temp_audio_path ex_env ''call1.mp3'') (snd (s3_download_file ex_env (objects ex_world) (JStr ''b'') ''audio/call1.mp3'' (temp_audio_path ex_env ''call1.mp3'') (files ex_world))) = Inr result \<and>
       map_of result ''text'' = Some tx \<and>
       fst (analyze_with_claude ex_env ex_world tx) = Inr analysis)
   \<and> (lambda_handler ex_env ex_world (ex_event ''audio/call3.mp3'' []) = (uncaught ex_env not_found_404, snd (ex_run ex_env ''audio/call3.mp3'' ''call3.mp3''))
    \<and> statusCode (uncaught ex_env not_found_404) = 500
    \<and> body (uncaught ex_env not_found_404) = json_dumps ex_env (JObj [(''error'', JStr (str_exn not_found_404))]))"
proof -
  have h0: "fst (s3_download_file ex_env (objects ex_world) (JStr ''b'') ''audio/call3.mp3'' (temp_audio_path ex_env ''call3.mp3'') (files ex_world)) = Some not_found_404"
    by (simp add: ex_defs run_defs)
  note t0 = failure_aborts_run [where E = ex_env and w = ex_world and bucket = "JStr ''b''"
      and key = "''audio/call3.mp3''" and filename = "''call3.mp3''", THEN conjunct1, THEN mp, OF h0]
  have p0: "fst (ex_run ex_env ''audio/call3.mp3'' ''call3.mp3'') = Inl not_found_404 \<and> calls (snd (ex_run ex_env ''audio/call3.mp3'' ''call3.mp3'')) = calls ex_world @ [Download (JStr ''b'') ''audio/call3.mp3'' (temp_audio_path ex_env ''call3.mp3'')] \<and> objects (snd (ex_run ex_env ''audio/call3.mp3'' ''call3.mp3'')) = objects ex_world"
    unfolding ex_run_def by (rule t0)
  have h1: "fst (s3_download_file ex_env_no_write (objects ex_world) (JStr ''b'') ''audio/call1.mp3'' (temp_audio_path ex_env_no_write ''call1.mp3'') (files ex_world)) = None \<and> snd (s3_download_file ex_env_no_write (objects ex_world) (JStr ''b'') ''audio/call1.mp3'' (temp_audio_path ex_env_no_write ''call1.mp3'') (files ex_world)) (temp_audio_path ex_env_no_write ''call1.mp3'') = None"
    by (simp add: ex_defs run_defs)
  note t1 = failure_aborts_run [where E = ex_env_no_write and w = ex_world and bucket = "JStr ''b''"
      and key = "''audio/call1.mp3''" and filename = "''call1.mp3''", THEN conjunct2, THEN conjunct1, THEN mp, OF h1]
  have p1: "fst (ex_run ex_env_no_write ''audio/call1.mp3'' ''call1.mp3'') = Inl (Exn FileNotFoundError (''File not found: '' @ temp_audio_path ex_env_no_write ''call1.mp3'')) \<and> calls (snd (ex_run ex_env_no_write ''audio/call1.mp3'' ''call1.mp3'')) = calls ex_world @ [Download (JStr ''b'') ''audio/call1.mp3'' (temp_audio_path ex_env_no_write ''call1.mp3'')] \<and> objects (snd (ex_run ex_env_no_write ''audio/call1.mp3'' ''call1.mp3'')) = objects ex_world"
    unfolding ex_run_def by (rule t1)
  have h2: "fst (s3_download_file ex_env (objects ex_world) (JStr ''b'') ''audio/empty.mp3'' (temp_audio_path ex_env ''empty.mp3'') (files ex_world)) = None \<and> snd (s3_download_file ex_env (objects ex_world) (JStr ''b'') ''audio/empty.mp3'' (temp_audio_path ex_env ''empty.mp3'') (files ex_world)) (temp_audio_path ex_env ''empty.mp3'') = Some []"
    by (simp add: ex_defs run_defs)
  note t2 = failure_aborts_run [where E = ex_env and w = ex_world and bucket = "JStr ''b''"
      and key = "''audio/empty.mp3''" and filename = "''empty.mp3''", THEN conjunct2, THEN conjunct2, THEN conjunct1, THEN mp, OF h2]
  have p2: "fst (ex_run ex_env ''audio/empty.mp3'' ''empty.mp3'') = Inl (Exn ValueError ''Downloaded file is empty'') \<and> calls (snd (ex_run ex_env ''audio/empty.mp3'' ''empty.mp3'')) = calls ex_world @ [Download (JStr ''b'') ''audio/empty.mp3'' (temp_audio_path ex_env ''empty.mp3'')] \<and> objects (snd (ex_run ex_env ''audio/empty.mp3'' ''empty.mp3'')) = objects ex_world"
    unfolding ex_run_def by (rule t2)
  have h3: "fst (s3_download_file ex_env_load_fails (objects ex_world) (JStr ''b'') ''audio/call1.mp3'' (temp_audio_path ex_env_load_fails ''call1.mp3'') (files ex_world)) = None \<and> snd (s3_download_file ex_env_load_fails (objects ex_world) (JStr ''b'') ''audio/call1.mp3'' (temp_audio_path ex_env_load_fails ''call1.mp3'') (files ex_world)) (temp_audio_path ex_env_load_fails ''call1.mp3'') = Some ''{}'' \<and> ''{}'' \<noteq> [] \<and> whisper_load_model ex_env_load_fails ''medium'' = Some (Exn RuntimeError ''out of memory'')"
    by (simp add: ex_defs run_defs)
  note t3 = failure_aborts_run [where E = ex_env_load_fails and w = ex_world and bucket = "JStr ''b''"
      and key = "''audio/call1.mp3''" and filename = "''call1.mp3''", THEN conjunct2, THEN conjunct2, THEN conjunct2, THEN conjunct1, THEN mp, OF h3]
  have p3: "fst (ex_run ex_env_load_fails ''audio/call1.mp3'' ''call1.mp3'') = Inl (Exn RuntimeError ''out of memory'') \<and> calls (snd (ex_run ex_env_load_fails ''audio/call1.mp3'' ''call1.mp3'')) = calls ex_world @ [Download (JStr ''b'') ''audio/call1.mp3'' (temp_audio_path ex_env_load_fails ''call1.mp3''), LoadModel ''medium''] \<and> objects (snd (ex_run ex_env_load_fails ''audio/call1.mp3'' ''call1.mp3'')) = objects ex_world"
    unfolding ex_run_def by (rule t3)
  have h4: "fst (s3_download_file ex_env_transcribe_fails (objects ex_world) (JStr ''b'') ''audio/call1.mp3'' (temp_audio_path ex_env_transcribe_fails ''call1.mp3'') (files ex_world)) = None \<and> snd (s3_download_file ex_env_transcribe_fails (objects ex_world) (JStr ''b'') ''audio/call1.mp3'' (temp_audio_path ex_env_transcribe_fails ''call1.mp3'') (files ex_world)) (temp_audio_path ex_env_transcribe_fails ''call1.mp3'') = Some ''{}'' \<and> ''{}'' \<noteq> [] \<and> whisper_load_model ex_env_transcribe_fails ''medium'' = None \<and> whisper_transcribe ex_env_transcribe_fails (temp_audio_path ex_env_transcribe_fails ''call1.mp3'') (snd (s3_download_file ex_env_transcribe_fails (objects ex_world) (JStr ''b'') ''audio/call1.mp3'' (temp_audio_path ex_env_transcribe_fails ''call1.mp3'') (files ex_world))) = Inl (Exn RuntimeError ''Failed to load audio'')"
    by (simp add: ex_defs run_defs)
  note t4 = failure_aborts_run [where E = ex_env_transcribe_fails and w = ex_world and bucket = "JStr ''b''"
      and key = "''audio/call1.mp3''" and filename = "''call1.mp3''", THEN conjunct2, THEN conjunct2, THEN conjunct2, THEN conjunct2, THEN conjunct1, THEN mp, OF h4]
  have p4: "fst (ex_run ex_env_transcribe_fails ''audio/call1.mp3'' ''call1.mp3'') = Inl (Exn RuntimeError ''Failed to load audio'') \<and> calls (snd (ex_run ex_env_transcribe_fails ''audio/call1.mp3'' ''call1.mp3'')) = calls ex_world @ [Download (JStr ''b'') ''audio/call1.mp3'' (temp_audio_path ex_env_transcribe_fails ''call1.mp3''), LoadModel ''medium'', Transcribe (temp_audio_path ex_env_transcribe_fails ''call1.mp3'')] \<and> objects (snd (ex_run ex_env_transcribe_fails ''audio/call1.mp3'' ''call1.mp3'')) = objects ex_world"
    unfolding ex_run_def by (rule t4)
  have h5: "fst (s3_download_file ex_env_no_text (objects ex_world) (JStr ''b'') ''audio/call1.mp3'' (temp_audio_path ex_env_no_text ''call1.mp3'') (files ex_world)) = None \<and> snd (s3_download_file ex_env_no_text (objects ex_world) (JStr ''b'') ''audio/call1.mp3'' (temp_audio_path ex_env_no_text ''call1.mp3'') (files ex_world)) (temp_audio_path ex_env_no_text ''call1.mp3'') = Some ''{}'' \<and> ''{}'' \<noteq> [] \<and> whisper_load_model ex_env_no_text ''medium'' = None \<and> whisper_transcribe ex_env_no_text (temp_audio_path ex_env_no_text ''call1.mp3'') (snd (s3_download_file ex_env_no_text (objects ex_world) (JStr ''b'') ''audio/call1.mp3'' (temp_audio_path ex_env_no_text ''call1.mp3'') (files ex_world))) = Inr [] \<and> map_of ([] :: dict) ''text'' = None"
    by (simp add: ex_defs run_defs)
  note t5 = failure_aborts_run [where E = ex_env_no_text and w = ex_world and bucket = "JStr ''b''"
      and key = "''audio/call1.mp3''" and filename = "''call1.mp3''", THEN conjunct2, THEN conjunct2, THEN conjunct2, THEN conjunct2, THEN conjunct2, THEN conjunct1, THEN mp, OF h5]
  have p5: "fst (ex_run ex_env_no_text ''audio/call1.mp3'' ''call1.mp3'') = Inl (Exn KeyError (quote ''text'')) \<and> calls (snd (ex_run ex_env_no_text ''audio/call1.mp3'' ''call1.mp3'')) = calls ex_world @ [Download (JStr ''b'') ''audio/call1.mp3'' (temp_audio_path ex_env_no_text ''call1.mp3''), LoadModel ''medium'', Transcribe (temp_audio_path ex_env_no_text ''call1.mp3'')] \<and> objects (snd (ex_run ex_env_no_text ''audio/call1.mp3'' ''call1.mp3'')) = objects ex_world"
    unfolding ex_run_def by (rule t5)
  have h6: "fst (s3_download_file ex_env_analysis_fails (objects ex_world) (JStr ''b'') ''audio/call1.mp3'' (temp_audio_path ex_env_analysis_fails ''call1.mp3'') (files ex_world)) = None \<and> snd (s3_download_file ex_env_analysis_fails (objects ex_world) (JStr ''b'') ''audio/call1.mp3'' (temp_audio_path ex_env_analysis_fails ''call1.mp3'') (files ex_world)) (temp_audio_path ex_env_analysis_fails ''call1.mp3'') = Some ''{}'' \<and> ''{}'' \<noteq> [] \<and> whisper_load_model ex_env_analysis_fails ''medium'' = None \<and> whisper_transcribe ex_env_analysis_fails (temp_audio_path ex_env_analysis_fails ''call1.mp3'') (snd (s3_download_file ex_env_analysis_fails (objects ex_world) (JStr ''b'') ''audio/call1.mp3'' (temp_audio_path ex_env_analysis_fails ''call1.mp3'') (files ex_world))) = Inr [(''text'', JStr ''{}''), (''segments'', JArr []), (''language'', JStr ''en'')] \<and> map_of [(''text'', JStr ''{}''), (''segments'', JArr []), (''language'', JStr ''en'')] ''text'' = Some (JStr ''{}'') \<and> fst (analyze_with_claude ex_env_analysis_fails ex_world (JStr ''{}'')) = Inl (Exn ClientError ''ThrottlingException'')"
    by (simp add: ex_defs run_defs)
  note t6 = failure_aborts_run [where E = ex_env_analysis_fails and w = ex_world and bucket = "JStr ''b''"
      and key = "''audio/call1.mp3''" and filename = "''call1.mp3''", THEN conjunct2, THEN conjunct2, THEN conjunct2, THEN conjunct2, THEN conjunct2, THEN conjunct2, THEN conjunct1, THEN mp, OF h6]
  have p6: "fst (ex_run ex_env_analysis_fails ''audio/call1.mp3'' ''call1.mp3'') = Inl (Exn ClientError ''ThrottlingException'') \<and> calls (snd (ex_run ex_env_analysis_fails ''audio/call1.mp3'' ''call1.mp3'')) = calls ex_world @ [Download (JStr ''b'') ''audio/call1.mp3'' (temp_audio_path ex_env_analysis_fails ''call1.mp3''), LoadModel ''medium'', Transcribe (temp_audio_path ex_env_analysis_fails ''call1.mp3''), Analyze (JStr ''{}'')] \<and> objects (snd (ex_run ex_env_analysis_fails ''audio/call1.mp3'' ''call1.mp3'')) = objects ex_world"
    unfolding ex_run_def by (rule t6)
  have h7: "list_ex is_put (drop (length (calls ex_world)) (calls (snd (process_audio_file ex_env ex_world (JStr ''b'') ''audio/call1.mp3'' ''call1.mp3'')))) \<or> objects (snd (process_audio_file ex_env ex_world (JStr ''b'') ''audio/call1.mp3'' ''call1.mp3'')) \<noteq> objects ex_world"
    by (simp add: ex_defs run_defs)
  note t7 = failure_aborts_run [where E = ex_env and w = ex_world and bucket = "JStr ''b''"
      and key = "''audio/call1.mp3''" and filename = "''call1.mp3''", THEN conjunct2, THEN conjunct2, THEN conjunct2, THEN conjunct2, THEN conjunct2, THEN conjunct2, THEN conjunct2, THEN conjunct1, THEN mp, OF h7]
  have p7: "\<exists>content result tx analysis.
       fst (s3_download_file ex_env (objects ex_world) (JStr ''b'') ''audio/call1.mp3'' (temp_audio_path ex_env ''call1.mp3'') (files ex_world)) = None \<and>
       snd (s3_download_file ex_env (objects ex_world) (JStr ''b'') ''audio/call1.mp3'' (temp_audio_path ex_env ''call1.mp3'') (files ex_world)) (temp_audio_path ex_env ''call1.mp3'') = Some content \<and> content \<noteq> [] \<and>
       whisper_load_model ex_env ''medium'' = None \<and>
       whisper_transcribe ex_env (temp_audio_path ex_env ''call1.mp3'') (snd (s3_download_file ex_env (objects ex_world) (JStr ''b'') ''audio/call1.mp3'' (temp_audio_path ex_env ''call1.mp3'') (files ex_world))) = Inr result \<and>
       map_of result ''text'' = Some tx \<and>
       fst (analyze_with_claude ex_env ex_world tx) = Inr analysis"
    by (rule t7)
  have h8: "dict_get (ex_event ''audio/call3.mp3'' []) ''operation'' (JStr ''transcribe'') = JStr ''transcribe'' \<and>
        dict_get (ex_event ''audio/call3.mp3'' []) ''Records'' (JArr []) = JArr (s3_record ''b'' ''audio/call3.mp3'' # []) \<and>
        record_bucket (s3_record ''b'' ''audio/call3.mp3'') = Inr (JStr ''b'') \<and>
        record_key (s3_record ''b'' ''audio/call3.mp3'') = Inr (JStr ''audio/call3.mp3'') \<and>
        validate_audio_file ''audio/call3.mp3'' \<and> ''call3.mp3'' = last (split ''audio/call3.mp3'' CHR ''/'') \<and>
        fst (process_audio_file ex_env ex_world (JStr ''b'') ''audio/call3.mp3'' ''call3.mp3'') = Inl not_found_404"
    using valid_call3 by (simp add: ex_defs run_defs ex_event_def record_bucket_def record_key_def)
  note t8 = failure_aborts_run [where E = ex_env and w = ex_world and bucket = "JStr ''b''"
      and key = "''audio/call3.mp3''" and filename = "''call3.mp3''", THEN conjunct2, THEN conjunct2, THEN conjunct2, THEN conjunct2, THEN conjunct2, THEN conjunct2, THEN conjunct2, THEN conjunct2, THEN mp, OF h8]
  have p8: "lambda_handler ex_env ex_world (ex_event ''audio/call3.mp3'' []) = (uncaught ex_env not_found_404, snd (ex_run ex_env ''audio/call3.mp3'' ''call3.mp3'')) \<and> statusCode (uncaught ex_env not_found_404) = 500 \<and> body (uncaught ex_env not_found_404) = json_dumps ex_env (JObj [(''error'', JStr (str_exn not_found_404))])"
    unfolding ex_run_def by (rule t8)
  from p0 p1 p2 p3 p4 p5 p6 p7 p8 show ?thesis
    by blast
qed

section \<open>Loading the speech model\<close>

text \<open>
  C6, as stated, fails: the model is not loaded once per process. Two runs from the
  example state load it twice.
\<close>

theorem model_loaded_twice_by_two_runs:
  "model_loads ex_world = 0
   \<and> model_loads (snd (process_audio_file ex_env ex_world
        (JStr ''b'') ''audio/call1.mp3'' ''call1.mp3'')) = 1
   \<and> model_loads (snd (process_audio_file ex_env
        (snd (process_audio_file ex_env ex_world (JStr ''b'') ''audio/call1.mp3'' ''call1.mp3''))
        (JStr ''b'') ''audio/call2.mp3'' ''call2.mp3'')) = 2"
  by (simp add: model_loads_def ex_defs run_defs)

text \<open>
  C6, amended. Every pipeline run whose download succeeded and left a non-empty scratch
  file loads the speech model of size class \<open>medium\<close> exactly once, and every other run
  does not load it: the load is performed per run and is not memoized, so the number of
  loads in a process grows by one with each such run.
\<close>

theorem model_loaded_once_per_run:
  fixes E w bucket key filename
  defines "path \<equiv> temp_audio_path E filename"
  defines "d \<equiv> s3_download_file E (objects w) bucket key path (files w)"
  defines "run \<equiv> process_audio_file E w bucket key filename"
  shows "filter is_load (calls (snd run)) =
           filter is_load (calls w) @
           (if fst d = None \<and> (case snd d path of None \<Rightarrow> False | Some content \<Rightarrow> content \<noteq> [])
            then [LoadModel ''medium''] else [])
         \<and> model_loads (snd run) =
           model_loads w +
           (if fst d = None \<and> (case snd d path of None \<Rightarrow> False | Some content \<Rightarrow> content \<noteq> [])
            then 1 else 0)"
proof -
  have "filter is_load (calls (snd run)) =
           filter is_load (calls w) @
           (if fst d = None \<and> (case snd d path of None \<Rightarrow> False | Some content \<Rightarrow> content \<noteq> [])
            then [LoadModel ''medium''] else [])"
  proof (cases rule: try_cases [of E w bucket key filename])
    case (download e)
    then show ?thesis
      unfolding d_def run_def path_def by (simp add: run_simps try_download_raises)
  next
    case missing
    then show ?thesis
      unfolding d_def run_def path_def by (simp add: run_simps try_file_missing)
  next
    case empty
    then show ?thesis
      unfolding d_def run_def path_def by (simp add: run_simps try_file_empty)
  next
    case (load content e)
    then show ?thesis
      unfolding d_def run_def path_def by (simp add: run_simps try_load_raises)
  next
    case (transcribe content e)
    then show ?thesis
      unfolding d_def run_def path_def by (simp add: run_simps try_transcribe_raises)
  next
    case (notext content result)
    then show ?thesis
      unfolding d_def run_def path_def by (simp add: run_simps try_text_missing)
  next
    case (analysis content result tx e)
    then show ?thesis
      unfolding d_def run_def path_def by (simp add: run_simps try_analysis_raises)
  next
    case (put content result tx analysis)
    then show ?thesis
      unfolding d_def run_def path_def by (simp add: run_simps try_reaches_put)
  qed
  then show ?thesis
    by (simp add: model_loads_def)
qed

section \<open>The result document\<close>

text \<open>
  C10. In every successful pipeline run whose transcription result has no \<open>duration\<close>
  entry, the field \<open>audio_duration\<close> of the metadata of the result document is 0; the
  document is the one serialised into the body of the \<open>put_object\<close> call.
\<close>

theorem missing_duration_defaults_to_zero:
  fixes E w bucket key filename
  defines "path \<equiv> temp_audio_path E filename"
  defines "d \<equiv> s3_download_file E (objects w) bucket key path (files w)"
  defines "run \<equiv> process_audio_file E w bucket key filename"
  assumes ok: "fst run = Inr doc"
    and tr: "whisper_transcribe E path (snd d) = Inr result"
    and nd: "map_of result ''duration'' = None"
  shows "(\<exists>md. getitem_key doc ''metadata'' = Inr md \<and>
               getitem_key md ''audio_duration'' = Inr (JInt 0))
         \<and> last (calls (snd run)) = PutObject bucket (result_key E) (json_dumps_indent2 E doc)"
proof (cases rule: try_cases [of E w bucket key filename])
  case (download e)
  with ok show ?thesis
    unfolding d_def run_def path_def by (simp add: run_simps try_download_raises)
next
  case missing
  with ok show ?thesis
    unfolding d_def run_def path_def by (simp add: run_simps try_file_missing)
next
  case empty
  with ok show ?thesis
    unfolding d_def run_def path_def by (simp add: run_simps try_file_empty)
next
  case (load content e)
  with ok show ?thesis
    unfolding d_def run_def path_def by (simp add: run_simps try_load_raises)
next
  case (transcribe content e)
  with ok show ?thesis
    unfolding d_def run_def path_def by (simp add: run_simps try_transcribe_raises)
next
  case (notext content result)
  with ok show ?thesis
    unfolding d_def run_def path_def by (simp add: run_simps try_text_missing)
next
  case (analysis content result tx e)
  with ok show ?thesis
    unfolding d_def run_def path_def by (simp add: run_simps try_analysis_raises)
next
  case (put content result' tx analysis)
  from put(5) tr have same: "result' = result"
    unfolding d_def path_def by simp
  from put ok have doc: "doc = complete_result E filename result' tx analysis"
    unfolding d_def run_def path_def
    by (simp add: run_simps try_reaches_put split: option.splits)
  from put have "last (calls (snd run)) =
      PutObject bucket (result_key E) (json_dumps_indent2 E (complete_result E filename result' tx analysis))"
    unfolding d_def run_def path_def by (simp add: run_simps try_reaches_put)
  with doc same nd show ?thesis
    by (simp add: complete_result_def dict_getitem_def dict_get_def)
qed


theorem missing_duration_defaults_to_zero_witness:
  "(\<exists>md. getitem_key (complete_result ex_env ''call1.mp3''
               [(''text'', JStr ''{}''), (''segments'', JArr []), (''language'', JStr ''en'')]
               (JStr ''{}'') (JObj [])) ''metadata'' = Inr md \<and>
          getitem_key md ''audio_duration'' = Inr (JInt 0))
   \<and> last (calls (snd (process_audio_file ex_env ex_world (JStr ''b'') ''audio/call1.mp3'' ''call1.mp3'')))
       = PutObject (JStr ''b'') (result_key ex_env)
           (json_dumps_indent2 ex_env (complete_result ex_env ''call1.mp3''
               [(''text'', JStr ''{}''), (''segments'', JArr []), (''language'', JStr ''en'')]
               (JStr ''{}'') (JObj [])))"
proof -
  have ok: "fst (process_audio_file ex_env ex_world (JStr ''b'') ''audio/call1.mp3'' ''call1.mp3'')
      = Inr (complete_result ex_env ''call1.mp3''
               [(''text'', JStr ''{}''), (''segments'', JArr []), (''language'', JStr ''en'')]
               (JStr ''{}'') (JObj []))"
    by (simp add: ex_defs run_defs)
  have tr: "whisper_transcribe ex_env (temp_audio_path ex_env ''call1.mp3'')
       (snd (s3_download_file ex_env (objects ex_world) (JStr ''b'') ''audio/call1.mp3''
              (temp_audio_path ex_env ''call1.mp3'') (files ex_world)))
      = Inr [(''text'', JStr ''{}''), (''segments'', JArr []), (''language'', JStr ''en'')]"
    by (simp add: ex_defs run_defs)
  have nd: "map_of [(''text'', JStr ''{}''), (''segments'', JArr []), (''language'', JStr ''en'')]
      ''duration'' = None"
    by simp
  show ?thesis
    by (rule missing_duration_defaults_to_zero [OF ok tr nd])
qed

section \<open>Properties of the request router\<close>

lemma dict_get_absent: "map_of d k = None \<Longrightarrow> dict_get d k v = v"
  by (simp add: dict_get_def)

lemma dict_get_present: "map_of d k = Some x \<Longrightarrow> dict_get d k v = x"
  by (simp add: dict_get_def)

lemma handle_transcribe_operation:
  "handle_transcribe E w ((''operation'', v) # event) = handle_transcribe E w event"
  by (simp add: handle_transcribe_def dict_get_def)

text \<open>
  C7. For every event: without an \<open>operation\<close> field the router answers as for
  operation \<open>transcribe\<close>; with an \<open>operation\<close> other than \<open>transcribe\<close> and \<open>q_n_a\<close>
  it answers 400; with operation \<open>transcribe\<close> and no records (\<open>Records\<close> absent, empty
  or otherwise false) it answers 400; with operation \<open>q_n_a\<close> and any of
  \<open>transcript_file\<close>, \<open>transcript_bucket\<close>, \<open>question\<close> missing or empty it answers
  400. In the three rejecting cases nothing else happens.
\<close>

theorem router_rejects_bad_requests:
  "(map_of event ''operation'' = None \<longrightarrow>
      lambda_handler E w event =
        lambda_handler E w ((''operation'', JStr ''transcribe'') # event))
   \<and> (map_of event ''operation'' = Some v \<and> v \<noteq> JStr ''transcribe'' \<and> v \<noteq> JStr ''q_n_a'' \<longrightarrow>
      statusCode (fst (lambda_handler E w event)) = 400 \<and> snd (lambda_handler E w event) = w)
   \<and> (dict_get event ''operation'' (JStr ''transcribe'') = JStr ''transcribe'' \<and>
      \<not> truthy (dict_get event ''Records'' (JArr [])) \<longrightarrow>
      statusCode (fst (lambda_handler E w event)) = 400 \<and> snd (lambda_handler E w event) = w)
   \<and> (map_of event ''operation'' = Some (JStr ''q_n_a'') \<and>
      (\<not> truthy (dict_get_none event ''transcript_file'') \<or>
       \<not> truthy (dict_get_none event ''transcript_bucket'') \<or>
       \<not> truthy (dict_get_none event ''question'')) \<longrightarrow>
      statusCode (fst (lambda_handler E w event)) = 400 \<and> snd (lambda_handler E w event) = w)"
proof (intro conjI impI)
  assume "map_of event ''operation'' = None"
  then show "lambda_handler E w event =
        lambda_handler E w ((''operation'', JStr ''transcribe'') # event)"
    by (simp add: lambda_handler_def Let_def dict_get_absent handle_transcribe_operation)
       (simp add: dict_get_def)
next
  assume a: "map_of event ''operation'' = Some v \<and> v \<noteq> JStr ''transcribe'' \<and> v \<noteq> JStr ''q_n_a''"
  then show "statusCode (fst (lambda_handler E w event)) = 400"
    by (simp add: lambda_handler_def Let_def dict_get_present reply_def)
  from a show "snd (lambda_handler E w event) = w"
    by (simp add: lambda_handler_def Let_def dict_get_present reply_def)
next
  assume a: "dict_get event ''operation'' (JStr ''transcribe'') = JStr ''transcribe'' \<and>
      \<not> truthy (dict_get event ''Records'' (JArr []))"
  then show "statusCode (fst (lambda_handler E w event)) = 400"
    by (simp add: lambda_handler_def handle_transcribe_def Let_def reply_def)
  from a show "snd (lambda_handler E w event) = w"
    by (simp add: lambda_handler_def handle_transcribe_def Let_def reply_def)
next
  assume a: "map_of event ''operation'' = Some (JStr ''q_n_a'') \<and>
      (\<not> truthy (dict_get_none event ''transcript_file'') \<or>
       \<not> truthy (dict_get_none event ''transcript_bucket'') \<or>
       \<not> truthy (dict_get_none event ''question''))"
  then show "statusCode (fst (lambda_handler E w event)) = 400"
    by (auto simp: lambda_handler_def handle_q_n_a_def Let_def dict_get_present reply_def)
  from a show "snd (lambda_handler E w event) = w"
    by (auto simp: lambda_handler_def handle_q_n_a_def Let_def dict_get_present reply_def)
qed

theorem router_rejects_bad_requests_witness:
  "lambda_handler ex_env ex_world [] =
     lambda_handler ex_env ex_world ((''operation'', JStr ''transcribe'') # [])
   \<and> (statusCode (fst (lambda_handler ex_env ex_world [(''operation'', JStr ''bogus'')])) = 400 \<and>
      snd (lambda_handler ex_env ex_world [(''operation'', JStr ''bogus'')]) = ex_world)
   \<and> (statusCode (fst (lambda_handler ex_env ex_world [(''operation'', JStr ''transcribe'')])) = 400 \<and>
      snd (lambda_handler ex_env ex_world [(''operation'', JStr ''transcribe'')]) = ex_world)
   \<and> (statusCode (fst (lambda_handler ex_env ex_world
         [(''operation'', JStr ''q_n_a''), (''transcript_file'', JStr ''transcripts/t1.json''),
          (''transcript_bucket'', JStr ''b''), (''question'', JStr [])])) = 400 \<and>
      snd (lambda_handler ex_env ex_world
         [(''operation'', JStr ''q_n_a''), (''transcript_file'', JStr ''transcripts/t1.json''),
          (''transcript_bucket'', JStr ''b''), (''question'', JStr [])]) = ex_world)"
proof -
  have h1: "map_of ([] :: dict) ''operation'' = None" by simp
  note p1 = router_rejects_bad_requests [where event = "[]" and E = ex_env and w = ex_world,
      THEN conjunct1, THEN mp, OF h1]
  have h2: "map_of [(''operation'', JStr ''bogus'')] ''operation'' = Some (JStr ''bogus'') \<and>
      JStr ''bogus'' \<noteq> JStr ''transcribe'' \<and> JStr ''bogus'' \<noteq> JStr ''q_n_a''" by simp
  note p2 = router_rejects_bad_requests [where E = ex_env and w = ex_world,
      THEN conjunct2, THEN conjunct1, THEN mp, OF h2]
  have h3: "dict_get [(''operation'', JStr ''transcribe'')] ''operation'' (JStr ''transcribe'')
        = JStr ''transcribe'' \<and>
      \<not> truthy (dict_get [(''operation'', JStr ''transcribe'')] ''Records'' (JArr []))"
    by (simp add: dict_get_def)
  note p3 = router_rejects_bad_requests [where E = ex_env and w = ex_world,
      THEN conjunct2, THEN conjunct2, THEN conjunct1, THEN mp, OF h3]
  have h4: "map_of [(''operation'', JStr ''q_n_a''), (''transcript_file'', JStr ''transcripts/t1.json''),
          (''transcript_bucket'', JStr ''b''), (''question'', JStr [])] ''operation''
        = Some (JStr ''q_n_a'') \<and>
      (\<not> truthy (dict_get_none [(''operation'', JStr ''q_n_a''), (''transcript_file'', JStr ''transcripts/t1.json''),
          (''transcript_bucket'', JStr ''b''), (''question'', JStr [])] ''transcript_file'') \<or>
       \<not> truthy (dict_get_none [(''operation'', JStr ''q_n_a''), (''transcript_file'', JStr ''transcripts/t1.json''),
          (''transcript_bucket'', JStr ''b''), (''question'', JStr [])] ''transcript_bucket'') \<or>
       \<not> truthy (dict_get_none [(''operation'', JStr ''q_n_a''), (''transcript_file'', JStr ''transcripts/t1.json''),
          (''transcript_bucket'', JStr ''b''), (''question'', JStr [])] ''question''))"
    by (simp add: dict_get_none_def dict_get_def)
  note p4 = router_rejects_bad_requests [where E = ex_env and w = ex_world,
      THEN conjunct2, THEN conjunct2, THEN conjunct2, THEN mp, OF h4]
  from p1 p2 p3 p4 show ?thesis by blast
qed

text \<open>
  C9. Two \<open>transcribe\<close> events whose first records give the same bucket name and the
  same object key (or fail in the same way when these are read) get the same answer and
  leave the same state, whatever records follow the first.
\<close>

theorem only_first_record_used:
  assumes "dict_get event1 ''operation'' (JStr ''transcribe'') = JStr ''transcribe''"
    and "dict_get event2 ''operation'' (JStr ''transcribe'') = JStr ''transcribe''"
    and "dict_get event1 ''Records'' (JArr []) = JArr (r1 # rest1)"
    and "dict_get event2 ''Records'' (JArr []) = JArr (r2 # rest2)"
    and "record_bucket r1 = record_bucket r2"
    and "record_key r1 = record_key r2"
  shows "lambda_handler E w event1 = lambda_handler E w event2"
  using assms by (simp add: lambda_handler_def handle_transcribe_def Let_def split: sum.splits)

theorem only_first_record_used_witness:
  "lambda_handler ex_env ex_world (ex_event ''audio/call1.mp3'' []) =
   lambda_handler ex_env ex_world
     (ex_event ''audio/call1.mp3'' [s3_record ''b'' ''audio/call2.mp3'', JNull])"
proof -
  have a: "dict_get (ex_event ''audio/call1.mp3'' []) ''operation'' (JStr ''transcribe'')
      = JStr ''transcribe''"
    by (simp add: ex_event_def dict_get_def)
  have b: "dict_get (ex_event ''audio/call1.mp3'' [s3_record ''b'' ''audio/call2.mp3'', JNull])
      ''operation'' (JStr ''transcribe'') = JStr ''transcribe''"
    by (simp add: ex_event_def dict_get_def)
  have c: "dict_get (ex_event ''audio/call1.mp3'' []) ''Records'' (JArr [])
      = JArr (s3_record ''b'' ''audio/call1.mp3'' # [])"
    by (simp add: ex_event_def dict_get_def)
  have d: "dict_get (ex_event ''audio/call1.mp3'' [s3_record ''b'' ''audio/call2.mp3'', JNull])
      ''Records'' (JArr [])
      = JArr (s3_record ''b'' ''audio/call1.mp3'' # [s3_record ''b'' ''audio/call2.mp3'', JNull])"
    by (simp add: ex_event_def dict_get_def)
  show ?thesis
    by (rule only_first_record_used [OF a b c d refl refl])
qed

section \<open>Fetching the transcript for a question\<close>

lemma first_present_eq:
  "dict_get d ''original_transcript'' (dict_get d ''transcript'' (dict_get d ''text'' (JStr [])))
     = spec_first_present d"
  by (simp add: dict_get_def spec_first_present_def split: option.splits)

lemma qa_calls: "snd (qa_with_claude E w t q) = w\<lparr>calls := calls w @ [Ask t q]\<rparr>"
  by (simp add: qa_with_claude_def arn_nonempty Let_def split: sum.splits)

lemma qa_result:
  "fst (qa_with_claude E w t q) =
     (case claude_answer E t q of Inl e \<Rightarrow> Inl e | Inr a \<Rightarrow> Inr (JStr a))"
  by (simp add: qa_with_claude_def arn_nonempty Let_def split: sum.splits)

lemma handler_q_n_a:
  assumes "map_of event ''operation'' = Some (JStr ''q_n_a'')"
    and "truthy (dict_get_none event ''transcript_file'')"
    and "truthy (dict_get_none event ''transcript_bucket'')"
    and "truthy (dict_get_none event ''question'')"
  shows "lambda_handler E w event =
     (case fst (get_transcript_from_s3 E w (dict_get_none event ''transcript_bucket'')
                  (dict_get_none event ''transcript_file'')) of
        Inl e \<Rightarrow>
          (reply E 500 [(''error'', JStr (''Error processing Q&A: '' @ str_exn e))],
           w\<lparr>calls := calls w @ [GetObject (dict_get_none event ''transcript_bucket'')
                                    (dict_get_none event ''transcript_file'')]\<rparr>)
      | Inr transcript \<Rightarrow>
          (if \<not> truthy transcript
           then (reply E 404 [(''error'', JStr ''Transcript not found or empty'')],
                 w\<lparr>calls := calls w @ [GetObject (dict_get_none event ''transcript_bucket'')
                                    (dict_get_none event ''transcript_file'')]\<rparr>)
           else
             ((case claude_answer E transcript (dict_get_none event ''question'') of
                 Inl e \<Rightarrow> reply E 500 [(''error'', JStr (''Error processing Q&A: '' @ str_exn e))]
               | Inr a \<Rightarrow> reply E 200
                    [(''question'', dict_get_none event ''question''),
                     (''answer'', JStr a),
                     (''transcript_file'', dict_get_none event ''transcript_file'')]),
              w\<lparr>calls := calls w @ [GetObject (dict_get_none event ''transcript_bucket'')
                                    (dict_get_none event ''transcript_file''),
                                  Ask transcript (dict_get_none event ''question'')]\<rparr>)))"
proof -
  have gw: "snd (get_transcript_from_s3 E w (dict_get_none event ''transcript_bucket'')
                  (dict_get_none event ''transcript_file''))
      = w\<lparr>calls := calls w @ [GetObject (dict_get_none event ''transcript_bucket'')
                                    (dict_get_none event ''transcript_file'')]\<rparr>"
    by (simp add: get_transcript_from_s3_def Let_def split: sum.splits json.splits)
  show ?thesis
    using assms
    by (simp add: lambda_handler_def handle_q_n_a_def Let_def dict_get_present gw qa_calls qa_result
        split: sum.splits)
qed

lemma get_transcript_raises:
  "s3_get_object E (objects w) b k = Inl e \<Longrightarrow> fst (get_transcript_from_s3 E w b k) = Inl e"
  by (simp add: get_transcript_from_s3_def Let_def)

lemma get_transcript_dict:
  "s3_get_object E (objects w) b k = Inr content \<Longrightarrow> json_loads E content = Inr (JObj d) \<Longrightarrow>
   fst (get_transcript_from_s3 E w b k) =
     Inr (if truthy (spec_first_present d) then spec_first_present d else JNull)"
  by (simp add: get_transcript_from_s3_def Let_def first_present_eq)

lemma get_transcript_Inr:
  "fst (get_transcript_from_s3 E w b k) = Inr t \<Longrightarrow>
   \<exists>content d. s3_get_object E (objects w) b k = Inr content \<and> json_loads E content = Inr (JObj d)
      \<and> t = (if truthy (spec_first_present d) then spec_first_present d else JNull)"
  by (auto simp: get_transcript_from_s3_def Let_def first_present_eq split: sum.splits json.splits if_splits)

text \<open>
  C8, as stated, fails for a missing transcript object: the storage client raises, and the
  router answers 500, not 404.
\<close>

theorem missing_transcript_object_gives_500:
  "objects ex_world (''b'', ''transcripts/t3.json'') = None
   \<and> statusCode (fst (lambda_handler ex_env ex_world (ex_qna ''transcripts/t3.json''))) = 500"
  by (simp add: ex_defs ex_qna_def lambda_handler_def handle_q_n_a_def get_transcript_from_s3_def
      dict_get_def dict_get_none_def reply_def Let_def)


text \<open>
  C8, amended. For every \<open>q_n_a\<close> request with all three parameters present and
  non-empty: if fetching the transcript object raises, as it does for a missing object,
  the router answers 500; if the object holds a JSON object, the text is the value of the
  first present of \<open>original_transcript\<close>, \<open>transcript\<close>, \<open>text\<close>, in that order, and
  the router answers 404 when none of the three is present or that value is empty or
  otherwise false, and otherwise puts that value to the hosted model with the question.
  The router answers 404 in exactly that case.
\<close>

theorem transcript_lookup_statuses:
  fixes E w event
  defines "tf \<equiv> dict_get_none event ''transcript_file''"
  defines "tb \<equiv> dict_get_none event ''transcript_bucket''"
  defines "q \<equiv> dict_get_none event ''question''"
  defines "out \<equiv> lambda_handler E w event"
  assumes op: "map_of event ''operation'' = Some (JStr ''q_n_a'')"
    and p1: "truthy tf" and p2: "truthy tb" and p3: "truthy q"
  shows
    "(s3_get_object E (objects w) tb tf = Inl e \<longrightarrow>
        statusCode (fst out) = 500 \<and> calls (snd out) = calls w @ [GetObject tb tf])
     \<and> (s3_get_object E (objects w) tb tf = Inr content \<and> json_loads E content = Inr (JObj d) \<and>
        truthy (spec_first_present d) \<longrightarrow>
        calls (snd out) = calls w @ [GetObject tb tf, Ask (spec_first_present d) q] \<and>
        statusCode (fst out) =
          (case claude_answer E (spec_first_present d) q of Inl x \<Rightarrow> 500 | Inr a \<Rightarrow> 200))
     \<and> (s3_get_object E (objects w) tb tf = Inr content \<and> json_loads E content = Inr (JObj d) \<and>
        \<not> truthy (spec_first_present d) \<longrightarrow>
        statusCode (fst out) = 404 \<and> calls (snd out) = calls w @ [GetObject tb tf])
     \<and> (statusCode (fst out) = 404) =
        (\<exists>c x. s3_get_object E (objects w) tb tf = Inr c \<and> json_loads E c = Inr (JObj x) \<and>
               \<not> truthy (spec_first_present x))"
proof -
  note h = handler_q_n_a [OF op p1 [unfolded tf_def] p2 [unfolded tb_def] p3 [unfolded q_def], of E w]
  have a: "s3_get_object E (objects w) tb tf = Inl e \<longrightarrow>
        statusCode (fst out) = 500 \<and> calls (snd out) = calls w @ [GetObject tb tf]"
    unfolding out_def tf_def tb_def q_def
    by (auto simp: h get_transcript_raises reply_def)
  have b: "s3_get_object E (objects w) tb tf = Inr content \<and> json_loads E content = Inr (JObj d) \<and>
        truthy (spec_first_present d) \<longrightarrow>
        calls (snd out) = calls w @ [GetObject tb tf, Ask (spec_first_present d) q] \<and>
        statusCode (fst out) =
          (case claude_answer E (spec_first_present d) q of Inl x \<Rightarrow> 500 | Inr a \<Rightarrow> 200)"
    unfolding out_def tf_def tb_def q_def
    by (auto simp: h get_transcript_dict reply_def split: sum.splits)
  have c: "s3_get_object E (objects w) tb tf = Inr content \<and> json_loads E content = Inr (JObj d) \<and>
        \<not> truthy (spec_first_present d) \<longrightarrow>
        statusCode (fst out) = 404 \<and> calls (snd out) = calls w @ [GetObject tb tf]"
    unfolding out_def tf_def tb_def q_def
    by (auto simp: h get_transcript_dict reply_def)
  have d: "(statusCode (fst out) = 404) =
        (\<exists>c x. s3_get_object E (objects w) tb tf = Inr c \<and> json_loads E c = Inr (JObj x) \<and>
               \<not> truthy (spec_first_present x))"
  proof
    assume s: "statusCode (fst out) = 404"
    show "\<exists>c x. s3_get_object E (objects w) tb tf = Inr c \<and> json_loads E c = Inr (JObj x) \<and>
               \<not> truthy (spec_first_present x)"
    proof (cases "fst (get_transcript_from_s3 E w tb tf)")
      case (Inl e)
      with s show ?thesis
        unfolding out_def tf_def tb_def q_def by (simp add: h reply_def)
    next
      case (Inr t)
      from get_transcript_Inr [OF Inr] obtain c x where
        g: "s3_get_object E (objects w) tb tf = Inr c" "json_loads E c = Inr (JObj x)"
          "t = (if truthy (spec_first_present x) then spec_first_present x else JNull)"
        by blast
      have "\<not> truthy (spec_first_present x)"
      proof
        assume "truthy (spec_first_present x)"
        with s Inr g show False
          unfolding out_def tf_def tb_def q_def
          by (simp add: h reply_def split: sum.splits)
      qed
      with g show ?thesis by blast
    qed
  next
    assume "\<exists>c x. s3_get_object E (objects w) tb tf = Inr c \<and> json_loads E c = Inr (JObj x) \<and>
               \<not> truthy (spec_first_present x)"
    then show "statusCode (fst out) = 404"
      unfolding out_def tf_def tb_def q_def
      by (auto simp: h get_transcript_dict reply_def)
  qed
  from a b c d show ?thesis by blast
qed

theorem transcript_lookup_statuses_witness:
  "(statusCode (fst (lambda_handler ex_env ex_world (ex_qna ''transcripts/t3.json''))) = 500 \<and> calls (snd (lambda_handler ex_env ex_world (ex_qna ''transcripts/t3.json''))) = calls ex_world @ [GetObject (dict_get_none (ex_qna ''transcripts/t3.json'') ''transcript_bucket'') (dict_get_none (ex_qna ''transcripts/t3.json'') ''transcript_file'')])
   \<and> (calls (snd (lambda_handler ex_env ex_world (ex_qna ''transcripts/t1.json''))) = calls ex_world @ [GetObject (dict_get_none (ex_qna ''transcripts/t1.json'') ''transcript_bucket'') (dict_get_none (ex_qna ''transcripts/t1.json'') ''transcript_file''), Ask (spec_first_present [(''text'', JStr ''hi'')]) (dict_get_none (ex_qna ''transcripts/t1.json'') ''question'')] \<and> statusCode (fst (lambda_handler ex_env ex_world (ex_qna ''transcripts/t1.json''))) = (case claude_answer ex_env (spec_first_present [(''text'', JStr ''hi'')]) (dict_get_none (ex_qna ''transcripts/t1.json'') ''question'') of Inl x \<Rightarrow> 500 | Inr a \<Rightarrow> 200))
   \<and> (statusCode (fst (lambda_handler ex_env ex_world (ex_qna ''transcripts/t2.json''))) = 404 \<and> calls (snd (lambda_handler ex_env ex_world (ex_qna ''transcripts/t2.json''))) = calls ex_world @ [GetObject (dict_get_none (ex_qna ''transcripts/t2.json'') ''transcript_bucket'') (dict_get_none (ex_qna ''transcripts/t2.json'') ''transcript_file'')])
   \<and> ((statusCode (fst (lambda_handler ex_env ex_world (ex_qna ''transcripts/t2.json''))) = 404) = (\<exists>c x. s3_get_object ex_env (objects ex_world) (dict_get_none (ex_qna ''transcripts/t2.json'') ''transcript_bucket'') (dict_get_none (ex_qna ''transcripts/t2.json'') ''transcript_file'') = Inr c \<and> json_loads ex_env c = Inr (JObj x) \<and> \<not> truthy (spec_first_present x)))"
proof -
  have o3: "map_of (ex_qna ''transcripts/t3.json'') ''operation'' = Some (JStr ''q_n_a'')"
    by (simp add: ex_qna_def)
  have a3: "truthy (dict_get_none (ex_qna ''transcripts/t3.json'') ''transcript_file'')" by (simp add: ex_qna_def dict_get_none_def dict_get_def)
  have b3: "truthy (dict_get_none (ex_qna ''transcripts/t3.json'') ''transcript_bucket'')" by (simp add: ex_qna_def dict_get_none_def dict_get_def)
  have c3: "truthy (dict_get_none (ex_qna ''transcripts/t3.json'') ''question'')" by (simp add: ex_qna_def dict_get_none_def dict_get_def)
  note t3 = transcript_lookup_statuses [OF o3 a3 b3 c3, where E = ex_env and w = ex_world]
  have o1: "map_of (ex_qna ''transcripts/t1.json'') ''operation'' = Some (JStr ''q_n_a'')"
    by (simp add: ex_qna_def)
  have a1: "truthy (dict_get_none (ex_qna ''transcripts/t1.json'') ''transcript_file'')" by (simp add: ex_qna_def dict_get_none_def dict_get_def)
  have b1: "truthy (dict_get_none (ex_qna ''transcripts/t1.json'') ''transcript_bucket'')" by (simp add: ex_qna_def dict_get_none_def dict_get_def)
  have c1: "truthy (dict_get_none (ex_qna ''transcripts/t1.json'') ''question'')" by (simp add: ex_qna_def dict_get_none_def dict_get_def)
  note t1 = transcript_lookup_statuses [OF o1 a1 b1 c1, where E = ex_env and w = ex_world]
  have o2: "map_of (ex_qna ''transcripts/t2.json'') ''operation'' = Some (JStr ''q_n_a'')"
    by (simp add: ex_qna_def)
  have a2: "truthy (dict_get_none (ex_qna ''transcripts/t2.json'') ''transcript_file'')" by (simp add: ex_qna_def dict_get_none_def dict_get_def)
  have b2: "truthy (dict_get_none (ex_qna ''transcripts/t2.json'') ''transcript_bucket'')" by (simp add: ex_qna_def dict_get_none_def dict_get_def)
  have c2: "truthy (dict_get_none (ex_qna ''transcripts/t2.json'') ''question'')" by (simp add: ex_qna_def dict_get_none_def dict_get_def)
  note t2 = transcript_lookup_statuses [OF o2 a2 b2 c2, where E = ex_env and w = ex_world]
  have ha: "s3_get_object ex_env (objects ex_world) (dict_get_none (ex_qna ''transcripts/t3.json'') ''transcript_bucket'') (dict_get_none (ex_qna ''transcripts/t3.json'') ''transcript_file'') = Inl no_such_key"
    by (simp add: ex_defs ex_qna_def dict_get_none_def dict_get_def spec_first_present_def)
  note pa = t3 [THEN conjunct1, THEN mp, OF ha]
  have hb: "s3_get_object ex_env (objects ex_world) (dict_get_none (ex_qna ''transcripts/t1.json'') ''transcript_bucket'') (dict_get_none (ex_qna ''transcripts/t1.json'') ''transcript_file'') = Inr doc_text_hi \<and> json_loads ex_env doc_text_hi = Inr (JObj [(''text'', JStr ''hi'')]) \<and> truthy (spec_first_present [(''text'', JStr ''hi'')])"
    by (simp add: ex_defs ex_qna_def dict_get_none_def dict_get_def spec_first_present_def)
  note pb = t1 [THEN conjunct2, THEN conjunct1, THEN mp, OF hb]
  have hc: "s3_get_object ex_env (objects ex_world) (dict_get_none (ex_qna ''transcripts/t2.json'') ''transcript_bucket'') (dict_get_none (ex_qna ''transcripts/t2.json'') ''transcript_file'') = Inr ''{}'' \<and> json_loads ex_env ''{}'' = Inr (JObj []) \<and> \<not> truthy (spec_first_present [])"
    by (simp add: ex_defs ex_qna_def dict_get_none_def dict_get_def spec_first_present_def)
  note pc = t2 [THEN conjunct2, THEN conjunct2, THEN conjunct1, THEN mp, OF hc]
  note pd = t2 [THEN conjunct2, THEN conjunct2, THEN conjunct2]
  from pa pb pc pd show ?thesis
    by blast
qed

end
